theory Spec2Isabelle
  imports Main "HOL-Library.Sublist" "HOL-Library.Multiset"
begin

section \<open>Errors, durations and the data of the EC2 client\<close>

text \<open>
  Go's \<open>error\<close> values. \<open>errorString\<close> is what \<open>errors.New\<close> builds,
  \<open>createFileSystemOnVolumeTimeout\<close> is the program's own error type (main.go, lines 24-28),
  \<open>ErrNotExist\<close> is an operating-system error for which \<open>os.IsNotExist\<close> holds,
  \<open>OsError\<close> is any other error of the operating system or of a child process, and
  \<open>AwsError code message\<close> is an error returned by the EC2 client.
\<close>

datatype error =
    errorString string
  | createFileSystemOnVolumeTimeout
  | ErrNotExist string
  | OsError string
  | AwsError string string

fun Error :: "error \<Rightarrow> string" where
  "Error (errorString s) = s"
| "Error createFileSystemOnVolumeTimeout = ''Volume Timeout''"
| "Error (ErrNotExist m) = m"
| "Error (OsError m) = m"
| "Error (AwsError c m) = c @ '': '' @ m"

definition IsNotExist :: "error option \<Rightarrow> bool" where
  "IsNotExist err = (case err of Some (ErrNotExist m) \<Rightarrow> True | _ \<Rightarrow> False)"

text \<open>
  \<open>time.Duration\<close> is an \<open>int64\<close> count of nanoseconds. Instants are read from the
  monotonic clock as nanoseconds. \<open>t.Sub(u)\<close> saturates at the ends of the \<open>int64\<close>
  range; the subtraction of two durations wraps around.
\<close>

definition Second :: int where
  "Second = 1000000000"

definition maxDuration :: int where
  "maxDuration = 2 ^ 63 - 1"

definition minDuration :: int where
  "minDuration = - (2 ^ 63)"

definition int64 :: "int \<Rightarrow> int" where
  "int64 x = (x + 2 ^ 63) mod 2 ^ 64 - 2 ^ 63"

definition Sub :: "int \<Rightarrow> int \<Rightarrow> int" where
  "Sub t u = (if maxDuration < t - u then maxDuration
              else if t - u < minDuration then minDuration else t - u)"

record Filter =
  Name :: string
  Values :: "string list"

record DescribeVolumesInput =
  Filters :: "Filter list"
  VolumeIds :: "string list"

record DescribeSnapshotsInput =
  SnapshotFilters :: "Filter list"

record Volume =
  VolumeId :: "string option"

record Snapshot =
  SnapshotId :: "string option"
  StartTime :: int

record CreateVolumeInput =
  cv_AvailabilityZone :: string
  cv_Size :: int
  cv_VolumeType :: string
  cv_SnapshotId :: "string option"

record Tag =
  Key :: string
  Value :: string

record CreateTagsInput =
  Resources :: "string option list"
  Tags :: "Tag list"

record AttachVolumeInput =
  av_VolumeId :: string
  av_Device :: string
  av_InstanceId :: string

record EbsInstanceBlockDeviceSpecification =
  ebs_DeleteOnTermination :: bool
  ebs_VolumeId :: string

record InstanceBlockDeviceMappingSpecification =
  DeviceName :: string
  Ebs :: EbsInstanceBlockDeviceSpecification

record ModifyInstanceAttributeInput =
  Attribute :: string
  mia_InstanceId :: string
  BlockDeviceMappings :: "InstanceBlockDeviceMappingSpecification list"

section \<open>The platform: EC2 client, operating system, clock, sort\<close>

text \<open>
  Everything the program calls outside itself, as functions on a state \<open>'w\<close> of the outside
  world that return the call's result and the next state. The EC2 calls return either an
  error or their output. \<open>Stat\<close> returns the error of \<open>os.Stat\<close> (the file information is
  never used), \<open>ReadFile\<close> and \<open>CombinedOutput\<close> return the bytes and the error, \<open>Now\<close>
  reads the monotonic clock. \<open>Sort lt xs\<close> is \<open>sort.Sort\<close> on a slice \<open>xs\<close> whose
  \<open>Less\<close> method compares the elements by \<open>lt\<close>. \<open>MetadataRegion\<close> and
  \<open>GetMetadata\<close> are the lookups of the instance metadata service
  (\<open>ec2metadata.Region\<close>, \<open>ec2metadata.GetMetadata\<close>).

  \<open>StackFrames\<close> is the number of nested calls of \<open>waitForFile\<close> that the stack of
  the goroutine holds. Go does not reuse the frame of a call in tail position, and the
  runtime ends the process when a goroutine stack would grow beyond its limit, one
  gigabyte on a 64-bit machine. A frame of \<open>waitForFile\<close> holds \<open>startTime\<close>
  (24 bytes) and the return address at least, so the number is 31250000 at most.
\<close>

record 'w sys =
  DescribeVolumes :: "DescribeVolumesInput \<Rightarrow> 'w \<Rightarrow> (error + Volume list) \<times> 'w"
  DescribeSnapshots :: "DescribeSnapshotsInput \<Rightarrow> 'w \<Rightarrow> (error + Snapshot list) \<times> 'w"
  CreateVolume :: "CreateVolumeInput \<Rightarrow> 'w \<Rightarrow> (error + Volume) \<times> 'w"
  CreateTags :: "CreateTagsInput \<Rightarrow> 'w \<Rightarrow> error option \<times> 'w"
  WaitUntilVolumeAvailable :: "DescribeVolumesInput \<Rightarrow> 'w \<Rightarrow> error option \<times> 'w"
  AttachVolume :: "AttachVolumeInput \<Rightarrow> 'w \<Rightarrow> error option \<times> 'w"
  WaitUntilVolumeInUse :: "DescribeVolumesInput \<Rightarrow> 'w \<Rightarrow> error option \<times> 'w"
  ModifyInstanceAttribute :: "ModifyInstanceAttributeInput \<Rightarrow> 'w \<Rightarrow> error option \<times> 'w"
  Stat :: "string \<Rightarrow> 'w \<Rightarrow> error option \<times> 'w"
  ReadFile :: "string \<Rightarrow> 'w \<Rightarrow> (string \<times> error option) \<times> 'w"
  MkdirAll :: "string \<Rightarrow> nat \<Rightarrow> 'w \<Rightarrow> error option \<times> 'w"
  CombinedOutput :: "string \<Rightarrow> string list \<Rightarrow> 'w \<Rightarrow> (string \<times> error option) \<times> 'w"
  Now :: "'w \<Rightarrow> int \<times> 'w"
  Sort :: "(Snapshot \<Rightarrow> Snapshot \<Rightarrow> bool) \<Rightarrow> Snapshot list \<Rightarrow> Snapshot list"
  MetadataRegion :: "'w \<Rightarrow> (error + string) \<times> 'w"
  GetMetadata :: "string \<Rightarrow> 'w \<Rightarrow> (error + string) \<times> 'w"
  StackFrames :: nat

section \<open>Helpers of main.go\<close>

text \<open>\<open>ByStartTime.Less\<close> and \<open>sort.Reverse\<close> (lines 30-34 and 186).\<close>

definition ByStartTime_Less :: "Snapshot \<Rightarrow> Snapshot \<Rightarrow> bool" where
  "ByStartTime_Less a b = (StartTime a < StartTime b)"

definition Reverse :: "('a \<Rightarrow> 'a \<Rightarrow> bool) \<Rightarrow> 'a \<Rightarrow> 'a \<Rightarrow> bool" where
  "Reverse lt a b = lt b a"

text \<open>
  \<open>waitForFile\<close> (lines 36-47) calls itself as long as the file is missing and the
  remaining timeout is positive. Each of these calls is nested in the one before, and
  nothing in the code bounds their number; the stack does. \<open>depth\<close> is the number of
  calls of \<open>waitForFile\<close> that are on the stack when the call is made (\<open>0\<close> for the call
  of \<open>attachVolume\<close>). The result \<open>None\<close> is a call that does not return: the stack is
  exhausted and the runtime ends the process.
\<close>

function waitForFile ::
  "'w sys \<Rightarrow> string \<Rightarrow> int \<Rightarrow> nat \<Rightarrow> 'w \<Rightarrow> (error option \<times> 'w) option" where
  "waitForFile os file timeout depth w =
     (if StackFrames os \<le> depth then None
      else
        (case Now os w of (startTime, w1) \<Rightarrow>
         case Stat os file w1 of (err, w2) \<Rightarrow>
           if err = None then Some (None, w2)
           else
             (case Now os w2 of (now, w3) \<Rightarrow>
                let newTimeout = int64 (timeout - Sub now startTime) in
                if 0 < newTimeout then waitForFile os file newTimeout (depth + 1) w3
                else Some (Some (errorString (''File '' @ file @ '' not found'')), w3))))"
  by pat_completeness auto
termination
  by (relation "measure (\<lambda>(os, file, timeout, depth, w). StackFrames os - depth)") auto

declare waitForFile.simps [simp del]

definition run :: "'w sys \<Rightarrow> string \<Rightarrow> string list \<Rightarrow> 'w \<Rightarrow> error option \<times> 'w" where
  "run os cmd args w =
     (case CombinedOutput os cmd args w of ((out, err), w') \<Rightarrow>
        if err \<noteq> None then (err, w') else (None, w'))"

definition slurpFile :: "'w sys \<Rightarrow> string \<Rightarrow> 'w \<Rightarrow> string \<times> 'w" where
  "slurpFile os file w = (case ReadFile os file w of ((v, err), w') \<Rightarrow> (v, w'))"

text \<open>\<open>strings.Contains s substr\<close>: whether \<open>substr\<close> occurs in \<open>s\<close>.\<close>

fun Contains :: "string \<Rightarrow> string \<Rightarrow> bool" where
  "Contains [] substr = (substr = [])"
| "Contains (c # s) substr = (prefix substr (c # s) \<or> Contains s substr)"

text \<open>\<open>fmt.Sprintf("%d", n)\<close> for an integer.\<close>

function decimal :: "nat \<Rightarrow> string" where
  "decimal n = (if n < 10 then [char_of (48 + n)]
                else decimal (n div 10) @ [char_of (48 + n mod 10)])"
  by pat_completeness auto
termination
  by (relation "measure id") auto

declare decimal.simps [simp del]

definition Sprintf_d :: "int \<Rightarrow> string" where
  "Sprintf_d n = (if n < 0 then CHR ''-'' # decimal (nat (- n)) else decimal (nat n))"

section \<open>AwsAsgEbs: the implementation of the interface\<close>

text \<open>
  The struct of lines 79-84; its \<open>AwsConfig\<close> is what the EC2 client is built from, and
  the client is the platform \<open>svc\<close> that every method takes. The parsing of the command
  line is not modelled: \<open>main\<close> is given the \<open>Config\<close> that it produces.

  Pointers that the EC2 client always sets are plain values in the model (the elements of
  \<open>Volumes\<close> and \<open>Snapshots\<close>, the \<open>StartTime\<close> of a snapshot). The ids that the
  program hands on as \<open>*string\<close> are optional: \<open>None\<close> is the nil pointer.
\<close>

record AwsAsgEbs =
  Region :: string
  AvailabilityZone :: string
  InstanceId :: string

definition findVolume ::
  "'w sys \<Rightarrow> AwsAsgEbs \<Rightarrow> string \<Rightarrow> string \<Rightarrow> 'w \<Rightarrow> (string option \<times> error option) \<times> 'w" where
  "findVolume svc awsAsgEbs tagKey tagValue w =
     (let params = \<lparr>Filters =
            [\<lparr>Name = ''tag:'' @ tagKey, Values = [tagValue]\<rparr>,
             \<lparr>Name = ''tag:filesystem'', Values = [''true'']\<rparr>,
             \<lparr>Name = ''status'', Values = [''available'']\<rparr>,
             \<lparr>Name = ''availability-zone'', Values = [AvailabilityZone awsAsgEbs]\<rparr>],
          VolumeIds = []\<rparr>
      in case DescribeVolumes svc params w of
           (Inl err, w') \<Rightarrow> ((None, Some err), w')
         | (Inr volumes, w') \<Rightarrow>
             (case volumes of
                [] \<Rightarrow> ((None, None), w')
              | v # _ \<Rightarrow> ((VolumeId v, None), w')))"

definition findSnapshot ::
  "'w sys \<Rightarrow> AwsAsgEbs \<Rightarrow> string \<Rightarrow> string \<Rightarrow> 'w \<Rightarrow> (string option \<times> error option) \<times> 'w" where
  "findSnapshot svc awsAsgEbs tagKey tagValue w =
     (let describeSnapshotsInput = \<lparr>SnapshotFilters =
            [\<lparr>Name = ''tag:'' @ tagKey, Values = [tagValue]\<rparr>,
             \<lparr>Name = ''status'', Values = [''completed'']\<rparr>]\<rparr>
      in case DescribeSnapshots svc describeSnapshotsInput w of
           (Inl err, w') \<Rightarrow> ((None, Some err), w')
         | (Inr out, w') \<Rightarrow>
             (let snapshots = Sort svc (Reverse ByStartTime_Less) out
              in case snapshots of
                   [] \<Rightarrow> ((None, None), w')
                 | s # _ \<Rightarrow> ((SnapshotId s, None), w')))"

text \<open>
  \<open>createTags\<close> is a Go map; the list holds its entries in the order in which the
  \<open>range\<close> statement of line 225 visits them.
\<close>

definition createVolume ::
  "'w sys \<Rightarrow> AwsAsgEbs \<Rightarrow> int \<Rightarrow> string \<Rightarrow> string \<Rightarrow> (string \<times> string) list \<Rightarrow> string option
     \<Rightarrow> 'w \<Rightarrow> (string option \<times> error option) \<times> 'w" where
  "createVolume svc awsAsgEbs createSize createName createVolumeType createTags snapshotId w =
     (let filesystem = (if snapshotId \<noteq> None then ''true'' else ''false'');
          createVolumeInput = \<lparr>cv_AvailabilityZone = AvailabilityZone awsAsgEbs,
            cv_Size = createSize, cv_VolumeType = createVolumeType,
            cv_SnapshotId = snapshotId\<rparr>
      in case CreateVolume svc createVolumeInput w of
           (Inl err, w1) \<Rightarrow> ((None, Some err), w1)
         | (Inr vol, w1) \<Rightarrow>
             (let tags = [\<lparr>Key = ''Name'', Value = createName\<rparr>,
                          \<lparr>Key = ''filesystem'', Value = filesystem\<rparr>]
                         @ map (\<lambda>(k, v). \<lparr>Key = k, Value = v\<rparr>) createTags;
                  createTagsInput = \<lparr>Resources = [VolumeId vol], Tags = tags\<rparr>
              in case CreateTags svc createTagsInput w1 of
                   (Some err, w2) \<Rightarrow> ((VolumeId vol, Some err), w2)
                 | (None, w2) \<Rightarrow> ((VolumeId vol, None), w2)))"

definition waitUntilVolumeAvailable ::
  "'w sys \<Rightarrow> AwsAsgEbs \<Rightarrow> string \<Rightarrow> 'w \<Rightarrow> error option \<times> 'w" where
  "waitUntilVolumeAvailable svc awsAsgEbs volumeId w =
     (let describeVolumeInput = \<lparr>Filters = [], VolumeIds = [volumeId]\<rparr>
      in case WaitUntilVolumeAvailable svc describeVolumeInput w of
           (Some err, w') \<Rightarrow> (Some createFileSystemOnVolumeTimeout, w')
         | (None, w') \<Rightarrow> (None, w'))"

definition attachVolume ::
  "'w sys \<Rightarrow> AwsAsgEbs \<Rightarrow> string \<Rightarrow> string \<Rightarrow> bool \<Rightarrow> 'w \<Rightarrow> (error option \<times> 'w) option" where
  "attachVolume svc awsAsgEbs volumeId attachAs deleteOnTermination w =
     (let attachVolumeInput = \<lparr>av_VolumeId = volumeId, av_Device = attachAs,
            av_InstanceId = InstanceId awsAsgEbs\<rparr>
      in case AttachVolume svc attachVolumeInput w of
           (Some err, w1) \<Rightarrow> Some (Some err, w1)
         | (None, w1) \<Rightarrow>
             (let describeVolumeInput = \<lparr>Filters = [], VolumeIds = [volumeId]\<rparr>
              in case WaitUntilVolumeInUse svc describeVolumeInput w1 of
                   (Some err, w2) \<Rightarrow> Some (Some err, w2)
                 | (None, w2) \<Rightarrow>
                     (case (if deleteOnTermination
                            then ModifyInstanceAttribute svc
                                   \<lparr>Attribute = ''blockDeviceMapping'',
                                    mia_InstanceId = InstanceId awsAsgEbs,
                                    BlockDeviceMappings =
                                      [\<lparr>DeviceName = attachAs,
                                        Ebs = \<lparr>ebs_DeleteOnTermination = True,
                                               ebs_VolumeId = volumeId\<rparr>\<rparr>]\<rparr> w2
                            else (None, w2)) of
                        (Some err, w3) \<Rightarrow> Some (Some err, w3)
                      | (None, w3) \<Rightarrow>
                          (case waitForFile svc (''/dev/'' @ attachAs) (60 * Second) 0 w3 of
                             None \<Rightarrow> None
                           | Some (Some err, w4) \<Rightarrow> Some (Some err, w4)
                           | Some (None, w4) \<Rightarrow> Some (None, w4)))))"

definition makeFileSystem ::
  "'w sys \<Rightarrow> AwsAsgEbs \<Rightarrow> string \<Rightarrow> int \<Rightarrow> string \<Rightarrow> 'w \<Rightarrow> error option \<times> 'w" where
  "makeFileSystem svc awsAsgEbs device mkfsInodeRatio volumeId w =
     (case run svc ''/usr/sbin/mkfs.ext4'' [''-i'', Sprintf_d mkfsInodeRatio, device] w of
        (Some err, w1) \<Rightarrow> (Some err, w1)
      | (None, w1) \<Rightarrow>
          (let tags = [\<lparr>Key = ''filesystem'', Value = ''true''\<rparr>];
               createTagsInput = \<lparr>Resources = [Some volumeId], Tags = tags\<rparr>
           in case CreateTags svc createTagsInput w1 of
                (Some err, w2) \<Rightarrow> (Some err, w2)
              | (None, w2) \<Rightarrow> (None, w2)))"

definition mountVolume ::
  "'w sys \<Rightarrow> AwsAsgEbs \<Rightarrow> string \<Rightarrow> string \<Rightarrow> 'w \<Rightarrow> error option \<times> 'w" where
  "mountVolume os awsAsgEbs device mountPoint w =
     (case MkdirAll os mountPoint 493 w of
        (Some err, w1) \<Rightarrow> (Some err, w1)
      | (None, w1) \<Rightarrow> run os ''/bin/mount'' [device, mountPoint] w1)"

definition checkDevice ::
  "'w sys \<Rightarrow> AwsAsgEbs \<Rightarrow> string \<Rightarrow> 'w \<Rightarrow> error option \<times> 'w" where
  "checkDevice os awsAsgEbs device w =
     (case Stat os device w of (err, w') \<Rightarrow>
        if \<not> IsNotExist err then (Some (errorString ''Device exists''), w')
        else (None, w'))"

definition checkMountPoint ::
  "'w sys \<Rightarrow> AwsAsgEbs \<Rightarrow> string \<Rightarrow> 'w \<Rightarrow> error option \<times> 'w" where
  "checkMountPoint os awsAsgEbs mountPoint w =
     (case slurpFile os ''/proc/mounts'' w of (contents, w') \<Rightarrow>
        if Contains contents mountPoint then (Some (errorString ''Already mounted''), w')
        else (None, w'))"

section \<open>The interface AsgEbs and the orchestration\<close>

text \<open>
  The interface of lines 67-77. A method takes the state of the outside world and returns
  its results and the next state, or \<open>None\<close> when the call does not return to its
  caller: it runs forever, or the runtime ends the process in it.
\<close>

record 'w AsgEbs =
  checkDeviceI :: "string \<Rightarrow> 'w \<Rightarrow> (error option \<times> 'w) option"
  checkMountPointI :: "string \<Rightarrow> 'w \<Rightarrow> (error option \<times> 'w) option"
  findVolumeI :: "string \<Rightarrow> string \<Rightarrow> 'w \<Rightarrow> ((string option \<times> error option) \<times> 'w) option"
  attachVolumeI :: "string \<Rightarrow> string \<Rightarrow> bool \<Rightarrow> 'w \<Rightarrow> (error option \<times> 'w) option"
  findSnapshotI :: "string \<Rightarrow> string \<Rightarrow> 'w \<Rightarrow> ((string option \<times> error option) \<times> 'w) option"
  createVolumeI :: "int \<Rightarrow> string \<Rightarrow> string \<Rightarrow> (string \<times> string) list \<Rightarrow> string option
     \<Rightarrow> 'w \<Rightarrow> ((string option \<times> error option) \<times> 'w) option"
  mountVolumeI :: "string \<Rightarrow> string \<Rightarrow> 'w \<Rightarrow> (error option \<times> 'w) option"
  makeFileSystemI :: "string \<Rightarrow> int \<Rightarrow> string \<Rightarrow> 'w \<Rightarrow> (error option \<times> 'w) option"
  waitUntilVolumeAvailableI :: "string \<Rightarrow> 'w \<Rightarrow> (error option \<times> 'w) option"

text \<open>
  \<open>AwsAsgEbs\<close> implements the interface; only \<open>attachVolume\<close> can fail to return,
  when its wait for the device node exhausts the stack.
\<close>

definition awsAsgEbsI :: "'w sys \<Rightarrow> AwsAsgEbs \<Rightarrow> 'w AsgEbs" where
  "awsAsgEbsI svc a =
     \<lparr>checkDeviceI = (\<lambda>device w. Some (checkDevice svc a device w)),
      checkMountPointI = (\<lambda>mp w. Some (checkMountPoint svc a mp w)),
      findVolumeI = (\<lambda>k v w. Some (findVolume svc a k v w)),
      attachVolumeI = attachVolume svc a,
      findSnapshotI = (\<lambda>k v w. Some (findSnapshot svc a k v w)),
      createVolumeI = (\<lambda>sz nm ty tags snap w. Some (createVolume svc a sz nm ty tags snap w)),
      mountVolumeI = (\<lambda>device mp w. Some (mountVolume svc a device mp w)),
      makeFileSystemI = (\<lambda>device ratio vol w. Some (makeFileSystem svc a device ratio vol w)),
      waitUntilVolumeAvailableI = (\<lambda>vol w. Some (waitUntilVolumeAvailable svc a vol w))\<rparr>"

record Config =
  tagKey :: string
  tagValue :: string
  attachAs :: string
  mountPoint :: string
  createSize :: int
  mkfsInodeRatio :: int
  createName :: string
  createVolumeType :: string
  createTags :: "(string \<times> string) list"
  deleteOnTermination :: bool
  snapshotName :: string
  maxRetries :: int

text \<open>
  How \<open>runAsgEbs\<close> ends: \<open>log.Fatal\<close> exits the process (the message is kept), a
  dereferenced nil pointer panics, and otherwise the function returns after the mount.
\<close>

datatype exit = Fatal string | NilDereference | Returned

text \<open>
  The loop of lines 397-413, started with \<open>i = 1\<close> and \<open>volumeId = nil\<close>. It yields the
  value of \<open>volumeId\<close> after the loop, or the exit of the process.
\<close>

function reuseLoop ::
  "'w AsgEbs \<Rightarrow> Config \<Rightarrow> nat \<Rightarrow> string option \<Rightarrow> 'w \<Rightarrow> ((exit + string option) \<times> 'w) option" where
  "reuseLoop asgEbs cfg i volumeId w =
     (if i \<le> 10 then
        (case findVolumeI asgEbs (tagKey cfg) (tagValue cfg) w of
           None \<Rightarrow> None
         | Some ((volumeId', err), w1) \<Rightarrow>
             if err \<noteq> None then Some (Inl (Fatal ''Failed to find volume''), w1)
             else
               (case volumeId' of
                  None \<Rightarrow> Some (Inr None, w1)
                | Some v \<Rightarrow>
                    (case attachVolumeI asgEbs v (attachAs cfg) (deleteOnTermination cfg) w1 of
                       None \<Rightarrow> None
                     | Some (err, w2) \<Rightarrow>
                         if err \<noteq> None then reuseLoop asgEbs cfg (i + 1) volumeId' w2
                         else Some (Inr volumeId', w2))))
      else Some (Inr volumeId, w))"
  by pat_completeness auto
termination
  by (relation "measure (\<lambda>(asgEbs, cfg, i, volumeId, w). 11 - i)") auto

declare reuseLoop.simps [simp del]

text \<open>Lines 396-419: the values of \<open>volumeId\<close> and \<open>snapshotId\<close> after the branch.\<close>

definition acquire ::
  "'w AsgEbs \<Rightarrow> Config \<Rightarrow> 'w \<Rightarrow> ((exit + string option \<times> string option) \<times> 'w) option" where
  "acquire asgEbs cfg w =
     (if snapshotName cfg = [] then
        (case reuseLoop asgEbs cfg 1 None w of
           None \<Rightarrow> None
         | Some (Inl ex, w1) \<Rightarrow> Some (Inl ex, w1)
         | Some (Inr volumeId, w1) \<Rightarrow> Some (Inr (volumeId, None), w1))
      else
        (case findSnapshotI asgEbs ''Name'' (snapshotName cfg) w of
           None \<Rightarrow> None
         | Some ((snapshotId, err), w1) \<Rightarrow>
             if err \<noteq> None then Some (Inl (Fatal ''Failed to find snapshot''), w1)
             else Some (Inr (None, snapshotId), w1)))"

text \<open>
  Lines 421-440, entered when \<open>volumeId\<close> is nil: the values of \<open>volumeId\<close> and
  \<open>createFileSystemOnVolume\<close> afterwards.
\<close>

definition create ::
  "'w AsgEbs \<Rightarrow> Config \<Rightarrow> string option \<Rightarrow> 'w \<Rightarrow> ((exit + string option \<times> bool) \<times> 'w) option" where
  "create asgEbs cfg snapshotId w =
     (case createVolumeI asgEbs (createSize cfg) (createName cfg) (createVolumeType cfg)
             (createTags cfg) snapshotId w of
        None \<Rightarrow> None
      | Some ((volumeId, err), w1) \<Rightarrow>
          if err \<noteq> None then Some (Inl (Fatal ''Failed to create new volume''), w1)
          else
            (case volumeId of
               None \<Rightarrow> Some (Inl NilDereference, w1)
             | Some v \<Rightarrow>
                 (case waitUntilVolumeAvailableI asgEbs v w1 of
                    None \<Rightarrow> None
                  | Some (err, w2) \<Rightarrow>
                      if err \<noteq> None then Some (Inl (Fatal ''Waiting for volume timed out''), w2)
                      else
                        (let createFileSystemOnVolume = (snapshotId = None)
                         in case attachVolumeI asgEbs v (attachAs cfg) (deleteOnTermination cfg) w2 of
                              None \<Rightarrow> None
                            | Some (err, w3) \<Rightarrow>
                                if err \<noteq> None then Some (Inl (Fatal ''Failed to attach volume''), w3)
                                else Some (Inr (volumeId, createFileSystemOnVolume), w3)))))"

text \<open>Lines 442-454: the format step, when asked for, and the mount.\<close>

definition finish ::
  "'w AsgEbs \<Rightarrow> Config \<Rightarrow> string option \<Rightarrow> bool \<Rightarrow> 'w \<Rightarrow> (exit \<times> 'w) option" where
  "finish asgEbs cfg volumeId createFileSystemOnVolume w =
     (let attachAsDevice = ''/dev/'' @ attachAs cfg in
      case (if createFileSystemOnVolume then
              (case volumeId of
                 None \<Rightarrow> Some (Some NilDereference, w)
               | Some v \<Rightarrow>
                   (case makeFileSystemI asgEbs attachAsDevice (mkfsInodeRatio cfg) v w of
                      None \<Rightarrow> None
                    | Some (err, w1) \<Rightarrow>
                        if err \<noteq> None then Some (Some (Fatal ''Failed to create file system''), w1)
                        else Some (None, w1)))
            else Some (None, w)) of
        None \<Rightarrow> None
      | Some (Some ex, w1) \<Rightarrow> Some (ex, w1)
      | Some (None, w1) \<Rightarrow>
          (case mountVolumeI asgEbs attachAsDevice (mountPoint cfg) w1 of
             None \<Rightarrow> None
           | Some (err, w2) \<Rightarrow>
               if err \<noteq> None then Some (Fatal ''Failed to mount volume'', w2)
               else Some (Returned, w2)))"

definition runAsgEbs :: "'w AsgEbs \<Rightarrow> Config \<Rightarrow> 'w \<Rightarrow> (exit \<times> 'w) option" where
  "runAsgEbs asgEbs cfg w =
     (let attachAsDevice = ''/dev/'' @ attachAs cfg in
      case checkDeviceI asgEbs attachAsDevice w of
        None \<Rightarrow> None
      | Some (err, w1) \<Rightarrow>
          if err \<noteq> None then Some (Fatal ''Device already exists'', w1)
          else
            (case checkMountPointI asgEbs (mountPoint cfg) w1 of
               None \<Rightarrow> None
             | Some (err, w2) \<Rightarrow>
                 if err \<noteq> None then Some (Fatal ''Already mounted'', w2)
                 else
                   (case acquire asgEbs cfg w2 of
                      None \<Rightarrow> None
                    | Some (Inl ex, w3) \<Rightarrow> Some (ex, w3)
                    | Some (Inr (volumeId, snapshotId), w3) \<Rightarrow>
                        if volumeId = None then
                          (case create asgEbs cfg snapshotId w3 of
                             None \<Rightarrow> None
                           | Some (Inl ex, w4) \<Rightarrow> Some (ex, w4)
                           | Some (Inr (volumeId', createFileSystemOnVolume), w4) \<Rightarrow>
                               finish asgEbs cfg volumeId' createFileSystemOnVolume w4)
                        else finish asgEbs cfg volumeId False w3)))"

text \<open>
  \<open>NewAwsAsgEbs\<close> (lines 86-118) reads the region, the availability zone and the
  instance id from the instance metadata service and exits when a read fails.
  \<open>maxRetries\<close> goes into the configuration of the EC2 client only.
\<close>

definition NewAwsAsgEbs :: "'w sys \<Rightarrow> int \<Rightarrow> 'w \<Rightarrow> (exit + AwsAsgEbs) \<times> 'w" where
  "NewAwsAsgEbs metadata retries w =
     (case MetadataRegion metadata w of
        (Inl err, w1) \<Rightarrow> (Inl (Fatal ''Failed to get region from instance metadata''), w1)
      | (Inr region, w1) \<Rightarrow>
          (case GetMetadata metadata ''placement/availability-zone'' w1 of
             (Inl err, w2) \<Rightarrow>
               (Inl (Fatal ''Failed to get availability zone from instance metadata''), w2)
           | (Inr availabilityZone, w2) \<Rightarrow>
               (case GetMetadata metadata ''instance-id'' w2 of
                  (Inl err, w3) \<Rightarrow>
                    (Inl (Fatal ''Failed to get instance id from instance metadata''), w3)
                | (Inr instanceId, w3) \<Rightarrow>
                    (Inr \<lparr>Region = region, AvailabilityZone = availabilityZone,
                          InstanceId = instanceId\<rparr>, w3))))"

text \<open>\<open>main\<close> (lines 473-497), from the parsed configuration on.\<close>

definition main :: "'w sys \<Rightarrow> Config \<Rightarrow> 'w \<Rightarrow> (exit \<times> 'w) option" where
  "main svc cfg w =
     (case NewAwsAsgEbs svc (maxRetries cfg) w of
        (Inl ex, w1) \<Rightarrow> Some (ex, w1)
      | (Inr awsAsgEbs, w1) \<Rightarrow> runAsgEbs (awsAsgEbsI svc awsAsgEbs) cfg w1)"

section \<open>Observing the calls\<close>

text \<open>
  The calls of the program are observed the way a recording test double observes them:
  \<open>spy\<close> wraps a platform, \<open>logged\<close> wraps an implementation of the interface, and each
  call is appended, with its arguments and its result, to a log carried beside the state of
  the outside world. The wrapped operations compute what the wrapped ones compute.
\<close>

datatype syscall =
    EDescribeVolumes DescribeVolumesInput "error + Volume list"
  | EDescribeSnapshots DescribeSnapshotsInput "error + Snapshot list"
  | ECreateVolume CreateVolumeInput "error + Volume"
  | ECreateTags CreateTagsInput "error option"
  | EWaitUntilVolumeAvailable DescribeVolumesInput "error option"
  | EAttachVolume AttachVolumeInput "error option"
  | EWaitUntilVolumeInUse DescribeVolumesInput "error option"
  | EModifyInstanceAttribute ModifyInstanceAttributeInput "error option"
  | EStat string "error option"
  | EReadFile string "string \<times> error option"
  | EMkdirAll string nat "error option"
  | ECombinedOutput string "string list" "string \<times> error option"
  | ENow int
  | EMetadataRegion "error + string"
  | EGetMetadata string "error + string"

definition observe :: "('w \<Rightarrow> 'r \<times> 'w) \<Rightarrow> ('r \<Rightarrow> 'e) \<Rightarrow> 'w \<times> 'e list \<Rightarrow> 'r \<times> 'w \<times> 'e list" where
  "observe f ev = (\<lambda>(w, l). case f w of (r, w') \<Rightarrow> (r, (w', l @ [ev r])))"

definition spy :: "'w sys \<Rightarrow> ('w \<times> syscall list) sys" where
  "spy s =
     \<lparr>DescribeVolumes = (\<lambda>i. observe (DescribeVolumes s i) (EDescribeVolumes i)),
      DescribeSnapshots = (\<lambda>i. observe (DescribeSnapshots s i) (EDescribeSnapshots i)),
      CreateVolume = (\<lambda>i. observe (CreateVolume s i) (ECreateVolume i)),
      CreateTags = (\<lambda>i. observe (CreateTags s i) (ECreateTags i)),
      WaitUntilVolumeAvailable =
        (\<lambda>i. observe (WaitUntilVolumeAvailable s i) (EWaitUntilVolumeAvailable i)),
      AttachVolume = (\<lambda>i. observe (AttachVolume s i) (EAttachVolume i)),
      WaitUntilVolumeInUse = (\<lambda>i. observe (WaitUntilVolumeInUse s i) (EWaitUntilVolumeInUse i)),
      ModifyInstanceAttribute =
        (\<lambda>i. observe (ModifyInstanceAttribute s i) (EModifyInstanceAttribute i)),
      Stat = (\<lambda>f. observe (Stat s f) (EStat f)),
      ReadFile = (\<lambda>f. observe (ReadFile s f) (EReadFile f)),
      MkdirAll = (\<lambda>p m. observe (MkdirAll s p m) (EMkdirAll p m)),
      CombinedOutput = (\<lambda>c as. observe (CombinedOutput s c as) (ECombinedOutput c as)),
      Now = observe (Now s) ENow,
      Sort = Sort s,
      MetadataRegion = observe (MetadataRegion s) EMetadataRegion,
      GetMetadata = (\<lambda>p. observe (GetMetadata s p) (EGetMetadata p)),
      StackFrames = StackFrames s\<rparr>"

datatype call =
    CcheckDevice string "error option"
  | CcheckMountPoint string "error option"
  | CfindVolume string string "string option \<times> error option"
  | CattachVolume string string bool "error option"
  | CfindSnapshot string string "string option \<times> error option"
  | CcreateVolume int string string "(string \<times> string) list" "string option"
      "string option \<times> error option"
  | CmountVolume string string "error option"
  | CmakeFileSystem string int string "error option"
  | CwaitUntilVolumeAvailable string "error option"

definition observeI ::
  "('w \<Rightarrow> ('r \<times> 'w) option) \<Rightarrow> ('r \<Rightarrow> 'e) \<Rightarrow> 'w \<times> 'e list \<Rightarrow> ('r \<times> 'w \<times> 'e list) option" where
  "observeI f ev = (\<lambda>(w, l). case f w of None \<Rightarrow> None | Some (r, w') \<Rightarrow> Some (r, (w', l @ [ev r])))"

definition logged :: "'w AsgEbs \<Rightarrow> ('w \<times> call list) AsgEbs" where
  "logged a =
     \<lparr>checkDeviceI = (\<lambda>d. observeI (checkDeviceI a d) (CcheckDevice d)),
      checkMountPointI = (\<lambda>m. observeI (checkMountPointI a m) (CcheckMountPoint m)),
      findVolumeI = (\<lambda>k v. observeI (findVolumeI a k v) (CfindVolume k v)),
      attachVolumeI = (\<lambda>v d t. observeI (attachVolumeI a v d t) (CattachVolume v d t)),
      findSnapshotI = (\<lambda>k v. observeI (findSnapshotI a k v) (CfindSnapshot k v)),
      createVolumeI =
        (\<lambda>sz nm ty tags snap. observeI (createVolumeI a sz nm ty tags snap)
           (CcreateVolume sz nm ty tags snap)),
      mountVolumeI = (\<lambda>d m. observeI (mountVolumeI a d m) (CmountVolume d m)),
      makeFileSystemI = (\<lambda>d r v. observeI (makeFileSystemI a d r v) (CmakeFileSystem d r v)),
      waitUntilVolumeAvailableI =
        (\<lambda>v. observeI (waitUntilVolumeAvailableI a v) (CwaitUntilVolumeAvailable v))\<rparr>"

section \<open>Platforms and implementations to run the program on\<close>

text \<open>An insertion sort by a \<open>Less\<close> method: one function that \<open>sort.Sort\<close> can be.\<close>

definition insort_by :: "('a \<Rightarrow> 'a \<Rightarrow> bool) \<Rightarrow> 'a \<Rightarrow> 'a list \<Rightarrow> 'a list" where
  "insort_by lt x xs = takeWhile (\<lambda>y. \<not> lt x y) xs @ x # dropWhile (\<lambda>y. \<not> lt x y) xs"

definition sort_by :: "('a \<Rightarrow> 'a \<Rightarrow> bool) \<Rightarrow> 'a list \<Rightarrow> 'a list" where
  "sort_by lt xs = foldr (insort_by lt) xs []"

text \<open>
  \<open>idle\<close> is an account with no volumes and no snapshots in which every request succeeds,
  on a machine where no file exists, \<open>/proc/mounts\<close> is empty and every \<open>os.Stat\<close> takes
  twenty seconds. The state of the world is the reading of the clock. The instance is
  \<open>i-0abc\<close> in \<open>us-east-1a\<close>.
\<close>

definition idle :: "int sys" where
  "idle =
     \<lparr>DescribeVolumes = (\<lambda>i w. (Inr [], w)),
      DescribeSnapshots = (\<lambda>i w. (Inr [], w)),
      CreateVolume = (\<lambda>i w. (Inr \<lparr>VolumeId = Some ''vol-new''\<rparr>, w)),
      CreateTags = (\<lambda>i w. (None, w)),
      WaitUntilVolumeAvailable = (\<lambda>i w. (None, w)),
      AttachVolume = (\<lambda>i w. (None, w)),
      WaitUntilVolumeInUse = (\<lambda>i w. (None, w)),
      ModifyInstanceAttribute = (\<lambda>i w. (None, w)),
      Stat = (\<lambda>f w. (Some (ErrNotExist f), w + 20 * Second)),
      ReadFile = (\<lambda>f w. (([], None), w)),
      MkdirAll = (\<lambda>p m w. (None, w)),
      CombinedOutput = (\<lambda>c as w. (([], None), w)),
      Now = (\<lambda>w. (w, w)),
      Sort = sort_by,
      MetadataRegion = (\<lambda>w. (Inr ''us-east-1'', w)),
      GetMetadata = (\<lambda>p w.
        (Inr (if p = ''placement/availability-zone'' then ''us-east-1a'' else ''i-0abc''), w)),
      StackFrames = 31250000\<rparr>"

definition aws0 :: AwsAsgEbs where
  "aws0 = \<lparr>Region = ''us-east-1'', AvailabilityZone = ''us-east-1a'', InstanceId = ''i-0abc''\<rparr>"

definition cfg0 :: Config where
  "cfg0 = \<lparr>tagKey = ''env'', tagValue = ''staging'', attachAs = ''xvdb'',
           mountPoint = ''/mnt/data'', createSize = 20, mkfsInodeRatio = 16384,
           createName = ''staging-data'', createVolumeType = ''gp2'', createTags = [],
           deleteOnTermination = False, snapshotName = [], maxRetries = 20\<rparr>"

text \<open>
  \<open>contended\<close> is \<open>idle\<close> with one volume \<open>vol-1\<close> that every query finds and that
  another instance holds: each attach request is refused. Mounting a device that is not
  there fails.
\<close>

definition contended :: "int sys" where
  "contended = idle
     \<lparr>DescribeVolumes := (\<lambda>i w. (Inr [\<lparr>VolumeId = Some ''vol-1''\<rparr>], w)),
      AttachVolume := (\<lambda>i w. (Some (AwsError ''VolumeInUse'' ''vol-1 is already attached''), w)),
      CombinedOutput := (\<lambda>c as w.
         if c = ''/bin/mount'' then ((''mount: special device does not exist'',
                                      Some (OsError ''exit status 32'')), w)
         else (([], None), w))\<rparr>"

text \<open>
  An implementation of the interface whose methods all return at once: \<open>findVolume\<close>
  answers \<open>found\<close>, \<open>attachVolume\<close> answers \<open>attachErr\<close>, \<open>findSnapshot\<close> answers
  \<open>snap\<close>, \<open>createVolume\<close> makes \<open>vol-new\<close>, and everything else succeeds.
\<close>

definition stub :: "string option \<Rightarrow> error option \<Rightarrow> string option \<Rightarrow> unit AsgEbs" where
  "stub found attachErr snap =
     \<lparr>checkDeviceI = (\<lambda>d w. Some (None, w)),
      checkMountPointI = (\<lambda>m w. Some (None, w)),
      findVolumeI = (\<lambda>k v w. Some ((found, None), w)),
      attachVolumeI = (\<lambda>v d t w. Some (attachErr, w)),
      findSnapshotI = (\<lambda>k v w. Some ((snap, None), w)),
      createVolumeI = (\<lambda>sz nm ty tags s w. Some ((Some ''vol-new'', None), w)),
      mountVolumeI = (\<lambda>d m w. Some (None, w)),
      makeFileSystemI = (\<lambda>d r v w. Some (None, w)),
      waitUntilVolumeAvailableI = (\<lambda>v w. Some (None, w))\<rparr>"

section \<open>Reading the logs\<close>

text \<open>The log of a run that returned (empty for a run that did not).\<close>

definition calls :: "('r \<times> 'w \<times> 'e list) option \<Rightarrow> 'e list" where
  "calls r = (case r of None \<Rightarrow> [] | Some (x, (w, l)) \<Rightarrow> l)"

text \<open>
  \<open>reuse_iters l\<close> reads a log as a sequence of iterations of the reuse loop and counts
  them. An iteration is one \<open>findVolume\<close> call, followed by one \<open>attachVolume\<close> call on
  the volume found when the call returned a volume and no error, and by nothing otherwise.
  Any other log is rejected.
\<close>

fun reuse_iters :: "call list \<Rightarrow> nat option" where
  "reuse_iters [] = Some 0"
| "reuse_iters (CfindVolume k v (Some vol, None) # rest) =
     (case rest of
        CattachVolume vol' d t r # rest' \<Rightarrow>
          if vol' = vol then map_option Suc (reuse_iters rest') else None
      | _ \<Rightarrow> None)"
| "reuse_iters (CfindVolume k v res # rest) =
     (case rest of
        CattachVolume vol' d t r # rest' \<Rightarrow> None
      | _ \<Rightarrow> map_option Suc (reuse_iters rest))"
| "reuse_iters (c # rest) = None"

fun is_findVolume :: "call \<Rightarrow> bool" where
  "is_findVolume (CfindVolume k v r) = True"
| "is_findVolume c = False"

fun is_createVolume :: "call \<Rightarrow> bool" where
  "is_createVolume (CcreateVolume sz nm ty tags snap r) = True"
| "is_createVolume c = False"

fun is_makeFileSystem :: "call \<Rightarrow> bool" where
  "is_makeFileSystem (CmakeFileSystem d r v e) = True"
| "is_makeFileSystem c = False"

text \<open>
  The requests to the EC2 API (describe, create, tag, attach, modify, wait), as opposed to
  the local operating system and to the instance metadata service; and the lookups of the
  instance metadata service.
\<close>

fun is_ec2 :: "syscall \<Rightarrow> bool" where
  "is_ec2 (EStat f r) = False"
| "is_ec2 (EReadFile f r) = False"
| "is_ec2 (EMkdirAll p m r) = False"
| "is_ec2 (ECombinedOutput c as r) = False"
| "is_ec2 (ENow t) = False"
| "is_ec2 (EMetadataRegion r) = False"
| "is_ec2 (EGetMetadata p r) = False"
| "is_ec2 e = True"

fun is_metadata :: "syscall \<Rightarrow> bool" where
  "is_metadata (EMetadataRegion r) = True"
| "is_metadata (EGetMetadata p r) = True"
| "is_metadata e = False"

text \<open>
  The polls of a log of \<open>waitForFile\<close>: the results of the \<open>os.Stat\<close> calls, and the
  duration the code measures for each poll that did not find the file (the clock read
  before the \<open>os.Stat\<close> and after it).
\<close>

fun stat_results :: "syscall list \<Rightarrow> error option list" where
  "stat_results [] = []"
| "stat_results (EStat f r # rest) = r # stat_results rest"
| "stat_results (e # rest) = stat_results rest"

fun poll_times :: "syscall list \<Rightarrow> int list" where
  "poll_times (ENow s # EStat f r # ENow t # rest) = Sub t s # poll_times rest"
| "poll_times (e # rest) = poll_times rest"
| "poll_times [] = []"

text \<open>The clock readings taken at the start of each poll, just before its \<open>os.Stat\<close>.\<close>

fun poll_starts :: "syscall list \<Rightarrow> int list" where
  "poll_starts (ENow s # EStat f r # rest) = s # poll_starts rest"
| "poll_starts (e # rest) = poll_starts rest"
| "poll_starts [] = []"

text \<open>
  Every poll takes \<open>d\<close> nanoseconds or more: the clock read after an \<open>os.Stat\<close> is
  later by at least \<open>d\<close> than the one read before it.
\<close>

definition polls_take :: "'w sys \<Rightarrow> string \<Rightarrow> int \<Rightarrow> bool" where
  "polls_take os file d =
     (\<forall>w. fst (Now os w) + d \<le> fst (Now os (snd (Stat os file (snd (Now os w))))))"

text \<open>Every method of an implementation returns.\<close>

definition returns :: "'w AsgEbs \<Rightarrow> bool" where
  "returns a =
     ((\<forall>d w. checkDeviceI a d w \<noteq> None) \<and> (\<forall>m w. checkMountPointI a m w \<noteq> None)
      \<and> (\<forall>k v w. findVolumeI a k v w \<noteq> None) \<and> (\<forall>v d t w. attachVolumeI a v d t w \<noteq> None)
      \<and> (\<forall>k v w. findSnapshotI a k v w \<noteq> None)
      \<and> (\<forall>sz nm ty tags s w. createVolumeI a sz nm ty tags s w \<noteq> None)
      \<and> (\<forall>d m w. mountVolumeI a d m w \<noteq> None) \<and> (\<forall>d r v w. makeFileSystemI a d r v w \<noteq> None)
      \<and> (\<forall>v w. waitUntilVolumeAvailableI a v w \<noteq> None))"

text \<open>
  The error with which the waiters of the EC2 client give up when their deadline has
  passed has the code \<open>ResourceNotReady\<close>. An error of a waiter with another code is
  the failure of one of its requests.
\<close>

fun waiter_deadline :: "error \<Rightarrow> bool" where
  "waiter_deadline (AwsError c m) = (c = ''ResourceNotReady'')"
| "waiter_deadline e = False"

text \<open>
  The mount points listed in \<open>/proc/mounts\<close>: the second field, fields being separated by
  spaces, of each line.
\<close>

fun split_on :: "char \<Rightarrow> string \<Rightarrow> string list" where
  "split_on c [] = [[]]"
| "split_on c (x # xs) =
     (if x = c then [] # split_on c xs
      else (case split_on c xs of [] \<Rightarrow> [[x]] | f # fs \<Rightarrow> (x # f) # fs))"

definition mount_points :: "string \<Rightarrow> string list" where
  "mount_points contents =
     map (\<lambda>fields. fields ! 1)
       (filter (\<lambda>fields. 1 < length fields) (map (split_on CHR '' '') (split_on (CHR 0x0A) contents)))"

section \<open>The contract of sort.Sort\<close>

text \<open>
  \<open>sort.Sort\<close> permutes the slice so that no element is \<open>Less\<close> than one before it.
  It is not stable: elements that compare equal end in any order.
\<close>

definition sorts ::
  "(('a \<Rightarrow> 'a \<Rightarrow> bool) \<Rightarrow> 'a list \<Rightarrow> 'a list) \<Rightarrow> ('a \<Rightarrow> 'a \<Rightarrow> bool) \<Rightarrow> 'a list \<Rightarrow> bool" where
  "sorts srt lt xs = (mset (srt lt xs) = mset xs \<and> sorted_wrt (\<lambda>x y. \<not> lt y x) (srt lt xs))"

section \<open>More platforms\<close>

text \<open>Three completed snapshots carry the tag.\<close>

definition three_snapshots :: "int sys" where
  "three_snapshots = idle
     \<lparr>DescribeSnapshots := (\<lambda>i w.
        (Inr [\<lparr>SnapshotId = Some ''snap-a'', StartTime = 100\<rparr>,
              \<lparr>SnapshotId = Some ''snap-b'', StartTime = 300\<rparr>,
              \<lparr>SnapshotId = Some ''snap-c'', StartTime = 200\<rparr>], w))\<rparr>"

text \<open>The requests of the waiter are refused: a failure of the control plane, not a deadline.\<close>

definition unauthorized :: "int sys" where
  "unauthorized = idle
     \<lparr>WaitUntilVolumeAvailable := (\<lambda>i w.
        (Some (AwsError ''UnauthorizedOperation'' ''You are not authorized''), w))\<rparr>"

text \<open>Tagging is refused.\<close>

definition tag_refused :: "int sys" where
  "tag_refused = idle
     \<lparr>CreateTags := (\<lambda>i w. (Some (AwsError ''RequestLimitExceeded'' ''Request limit exceeded''), w))\<rparr>"

text \<open>The volume query fails.\<close>

definition query_down :: "int sys" where
  "query_down = idle
     \<lparr>DescribeVolumes := (\<lambda>i w. (Inl (AwsError ''RequestError'' ''send request failed''), w))\<rparr>"

text \<open>Another volume is mounted at \<open>/mnt/data2\<close>.\<close>

definition mounted_elsewhere :: "int sys" where
  "mounted_elsewhere = idle
     \<lparr>ReadFile := (\<lambda>f w.
        ((''/dev/xvdf /mnt/data2 ext4 rw,relatime 0 0'' @ [CHR 0x0A], None), w))\<rparr>"

text \<open>The device node is already there.\<close>

definition device_present :: "int sys" where
  "device_present = idle \<lparr>Stat := (\<lambda>f w. (None, w + Second))\<rparr>"

text \<open>
  The device node never appears, and an \<open>os.Stat\<close> takes a microsecond, as a system call
  on a missing path does.
\<close>

definition fast :: "int sys" where
  "fast = idle \<lparr>Stat := (\<lambda>f w. (Some (ErrNotExist f), w + 1000))\<rparr>"

text \<open>
  The device node never appears, an \<open>os.Stat\<close> takes a second, and three seconds pass
  after each reading of the clock before the process runs again.
\<close>

definition drifting :: "int sys" where
  "drifting = idle
     \<lparr>Stat := (\<lambda>f w. (Some (ErrNotExist f), w + Second)),
      Now := (\<lambda>w. (w, w + 3 * Second))\<rparr>"

text \<open>The device node appears forty seconds after the start.\<close>

definition device_appears :: "int sys" where
  "device_appears = idle
     \<lparr>Stat := (\<lambda>f w. (if 40 * Second \<le> w then None else Some (ErrNotExist f), w + 20 * Second))\<rparr>"

section \<open>What a log of waitForFile has to look like\<close>

text \<open>
  \<open>within_budget file T tr res\<close>: the log \<open>tr\<close> and the result \<open>res\<close> of a call of
  \<open>waitForFile\<close> with timeout \<open>T\<close> respect the timeout. The result is success or the
  "not found" error; it is success exactly when the last poll found the file, and no
  earlier poll found it; the error comes only when the polls have taken \<open>T\<close> or more;
  every poll but the first starts while the polls before it have taken less than \<open>T\<close>.
\<close>

definition within_budget :: "string \<Rightarrow> int \<Rightarrow> syscall list \<Rightarrow> error option \<Rightarrow> bool" where
  "within_budget f T tr res =
     ((res = None \<or> res = Some (errorString (''File '' @ f @ '' not found'')))
      \<and> stat_results tr \<noteq> []
      \<and> (res = None) = (last (stat_results tr) = None)
      \<and> None \<notin> set (butlast (stat_results tr))
      \<and> (res \<noteq> None \<longrightarrow> T \<le> sum_list (poll_times tr))
      \<and> (\<forall>k. 0 < k \<and> k < length (stat_results tr) \<longrightarrow> sum_list (take k (poll_times tr)) < T))"

section \<open>What a log of the orchestration has to look like\<close>

text \<open>
  The calls of the two precondition checks; the calls the reuse loop makes; the
  \<open>attachVolume\<close> calls that succeeded.
\<close>

fun is_check :: "call \<Rightarrow> bool" where
  "is_check (CcheckDevice d r) = True"
| "is_check (CcheckMountPoint m r) = True"
| "is_check c = False"

fun attach_ok :: "call \<Rightarrow> bool" where
  "attach_ok (CattachVolume v d t None) = True"
| "attach_ok c = False"

fun loop_call :: "call \<Rightarrow> bool" where
  "loop_call (CfindVolume k v r) = True"
| "loop_call (CattachVolume v d t r) = True"
| "loop_call c = False"

text \<open>
  \<open>loop_log i lt res\<close>: the log \<open>lt\<close> of the reuse loop entered with counter \<open>i\<close>
  is a sequence of at most \<open>11 - i\<close> iterations, and when the loop ends with no
  volume, no attach has succeeded.
\<close>

definition loop_log :: "nat \<Rightarrow> call list \<Rightarrow> (exit + string option) \<Rightarrow> bool" where
  "loop_log i lt res =
     ((\<exists>n. reuse_iters lt = Some n \<and> n + i \<le> 11)
      \<and> list_all loop_call lt
      \<and> (res = Inr None \<longrightarrow> \<not> list_ex attach_ok lt))"

text \<open>
  \<open>after_loop post\<close>: what may follow the reuse loop in a log. Either the creation path
  got as far as its \<open>attachVolume\<close>: then \<open>post\<close> starts with \<open>createVolume\<close>,
  \<open>waitUntilVolumeAvailable\<close> and one \<open>attachVolume\<close> on the volume waited for, and
  no \<open>findVolume\<close> or \<open>attachVolume\<close> comes after these. Or there is no
  \<open>findVolume\<close> and no \<open>attachVolume\<close> in \<open>post\<close> at all.
\<close>

fun is_attachVolume :: "call \<Rightarrow> bool" where
  "is_attachVolume (CattachVolume v d t r) = True"
| "is_attachVolume c = False"

fun after_loop :: "call list \<Rightarrow> bool" where
  "after_loop (CcreateVolume sz nm ty tags snap res # CwaitUntilVolumeAvailable v e
                 # CattachVolume v' d t r # rest) =
     (v' = v \<and> list_all (\<lambda>c. \<not> loop_call c) rest)"
| "after_loop post = list_all (\<lambda>c. \<not> loop_call c) post"

text \<open>The calls made between the precondition checks and the creation path.\<close>

fun acquire_call :: "call \<Rightarrow> bool" where
  "acquire_call (CfindVolume k v r) = True"
| "acquire_call (CattachVolume v d t r) = True"
| "acquire_call (CfindSnapshot k v r) = True"
| "acquire_call c = False"

section \<open>Facts about the helpers and the observers\<close>

lemma Contains_sublist: "Contains s substr = sublist substr s"
  by (induction s) (simp_all add: sublist_Cons_right)

lemma DescribeVolumes_spy [simp]:
  "DescribeVolumes (spy s) i (w, l) =
     (fst (DescribeVolumes s i w), snd (DescribeVolumes s i w),
      l @ [EDescribeVolumes i (fst (DescribeVolumes s i w))])"
  by (simp add: spy_def observe_def split: prod.splits)

lemma CreateVolume_spy [simp]:
  "CreateVolume (spy s) i (w, l) =
     (fst (CreateVolume s i w), snd (CreateVolume s i w),
      l @ [ECreateVolume i (fst (CreateVolume s i w))])"
  by (simp add: spy_def observe_def split: prod.splits)

lemma CreateTags_spy [simp]:
  "CreateTags (spy s) i (w, l) =
     (fst (CreateTags s i w), snd (CreateTags s i w),
      l @ [ECreateTags i (fst (CreateTags s i w))])"
  by (simp add: spy_def observe_def split: prod.splits)

lemma Now_spy [simp]:
  "Now (spy s) (w, l) = (fst (Now s w), snd (Now s w), l @ [ENow (fst (Now s w))])"
  by (simp add: spy_def observe_def split: prod.splits)

lemma Stat_spy [simp]:
  "Stat (spy s) f (w, l) = (fst (Stat s f w), snd (Stat s f w), l @ [EStat f (fst (Stat s f w))])"
  by (simp add: spy_def observe_def split: prod.splits)

lemma AttachVolume_spy [simp]:
  "AttachVolume (spy s) i (w, l) =
     (fst (AttachVolume s i w), snd (AttachVolume s i w), l @ [EAttachVolume i (fst (AttachVolume s i w))])"
  by (simp add: spy_def observe_def split: prod.splits)

lemma WaitUntilVolumeInUse_spy [simp]:
  "WaitUntilVolumeInUse (spy s) i (w, l) =
     (fst (WaitUntilVolumeInUse s i w), snd (WaitUntilVolumeInUse s i w),
      l @ [EWaitUntilVolumeInUse i (fst (WaitUntilVolumeInUse s i w))])"
  by (simp add: spy_def observe_def split: prod.splits)

lemma ModifyInstanceAttribute_spy [simp]:
  "ModifyInstanceAttribute (spy s) i (w, l) =
     (fst (ModifyInstanceAttribute s i w), snd (ModifyInstanceAttribute s i w),
      l @ [EModifyInstanceAttribute i (fst (ModifyInstanceAttribute s i w))])"
  by (simp add: spy_def observe_def split: prod.splits)

lemma CombinedOutput_spy [simp]:
  "CombinedOutput (spy s) c as (w, l) =
     (fst (CombinedOutput s c as w), snd (CombinedOutput s c as w),
      l @ [ECombinedOutput c as (fst (CombinedOutput s c as w))])"
  by (simp add: spy_def observe_def split: prod.splits)

lemma ReadFile_spy [simp]:
  "ReadFile (spy s) f (w, l) =
     (fst (ReadFile s f w), snd (ReadFile s f w), l @ [EReadFile f (fst (ReadFile s f w))])"
  by (simp add: spy_def observe_def split: prod.splits)

text \<open>Observing changes neither the results nor the outside world.\<close>

lemma spy_transparent:
  "fst (findVolume (spy svc) a k v (w, l)) = fst (findVolume svc a k v w)"
  "fst (snd (findVolume (spy svc) a k v (w, l))) = snd (findVolume svc a k v w)"
  "fst (createVolume (spy svc) a sz nm ty tags snap (w, l)) = fst (createVolume svc a sz nm ty tags snap w)"
  "fst (snd (createVolume (spy svc) a sz nm ty tags snap (w, l))) = snd (createVolume svc a sz nm ty tags snap w)"
  "fst (makeFileSystem (spy svc) a device ratio vid (w, l)) = fst (makeFileSystem svc a device ratio vid w)"
  "fst (snd (makeFileSystem (spy svc) a device ratio vid (w, l))) = snd (makeFileSystem svc a device ratio vid w)"
  "fst (checkDevice (spy svc) a device (w, l)) = fst (checkDevice svc a device w)"
  "fst (checkMountPoint (spy svc) a mp (w, l)) = fst (checkMountPoint svc a mp w)"
  by (auto simp: findVolume_def createVolume_def makeFileSystem_def run_def checkDevice_def
      checkMountPoint_def slurpFile_def Let_def split: prod.splits sum.splits list.splits option.splits)

section \<open>findVolume\<close>

text \<open>
  C6. \<open>findVolume\<close> sends one query, for the volumes that carry the tag \<open>k = v\<close> and the
  tag \<open>filesystem = true\<close>, are available and lie in the zone of the instance. When the
  query succeeds and returns no volume, \<open>findVolume\<close> returns no id and no error; it
  returns an error exactly when the query itself fails, and then that error.
\<close>

theorem findVolume_no_match:
  assumes "DescribeVolumes svc
             \<lparr>Filters = [\<lparr>Name = ''tag:'' @ k, Values = [v]\<rparr>,
                         \<lparr>Name = ''tag:filesystem'', Values = [''true'']\<rparr>,
                         \<lparr>Name = ''status'', Values = [''available'']\<rparr>,
                         \<lparr>Name = ''availability-zone'', Values = [AvailabilityZone a]\<rparr>],
              VolumeIds = []\<rparr> w = (r, w')"
  shows "(r = Inr [] \<longrightarrow> findVolume svc a k v w = ((None, None), w'))
       \<and> (\<forall>e. (snd (fst (findVolume svc a k v w)) = Some e) = (r = Inl e))
       \<and> snd (findVolume (spy svc) a k v (w, [])) =
           (w', [EDescribeVolumes
             \<lparr>Filters = [\<lparr>Name = ''tag:'' @ k, Values = [v]\<rparr>,
                         \<lparr>Name = ''tag:filesystem'', Values = [''true'']\<rparr>,
                         \<lparr>Name = ''status'', Values = [''available'']\<rparr>,
                         \<lparr>Name = ''availability-zone'', Values = [AvailabilityZone a]\<rparr>],
              VolumeIds = []\<rparr> r])"
  using assms
  by (auto simp: findVolume_def split: sum.splits list.splits)

theorem findVolume_no_match_witness:
  "findVolume idle aws0 ''env'' ''staging'' 0 = ((None, None), 0)
   \<and> snd (fst (findVolume query_down aws0 ''env'' ''staging'' 0))
       = Some (AwsError ''RequestError'' ''send request failed'')"
  using findVolume_no_match [of idle "''env''" "''staging''" aws0 0 "Inr []" 0]
    findVolume_no_match [of query_down "''env''" "''staging''" aws0 0
      "Inl (AwsError ''RequestError'' ''send request failed'')" 0]
  by (simp add: idle_def query_down_def)

section \<open>findSnapshot\<close>

lemma sorted_head_max:
  assumes "sorts srt (Reverse ByStartTime_Less) snaps" and "snaps \<noteq> []"
  shows "\<exists>s rest. srt (Reverse ByStartTime_Less) snaps = s # rest \<and> s \<in> set snaps
           \<and> (\<forall>t \<in> set snaps. StartTime t \<le> StartTime s)"
proof -
  let ?xs = "srt (Reverse ByStartTime_Less) snaps"
  from assms have m: "mset ?xs = mset snaps"
    and srt: "sorted_wrt (\<lambda>x y. \<not> Reverse ByStartTime_Less y x) ?xs"
    by (simp_all add: sorts_def)
  from m have st: "set ?xs = set snaps" by (rule mset_eq_setD)
  with assms(2) have "?xs \<noteq> []" by auto
  then obtain s rest where xs: "?xs = s # rest" by (cases ?xs) auto
  have "s \<in> set snaps" using st xs by auto
  moreover have "StartTime t \<le> StartTime s" if "t \<in> set snaps" for t
  proof -
    from that st xs have "t = s \<or> t \<in> set rest" by auto
    then show ?thesis
      using srt xs by (auto simp: Reverse_def ByStartTime_Less_def)
  qed
  ultimately show ?thesis using xs by blast
qed

text \<open>
  C7. Let the query for the completed snapshots with the tag succeed with the list
  \<open>snaps\<close>, and let \<open>sort.Sort\<close> keep its contract on it. If \<open>snaps\<close> is empty,
  \<open>findSnapshot\<close> returns no id and no error. Otherwise it returns, without error, the id
  of a snapshot of \<open>snaps\<close> whose start time no snapshot of \<open>snaps\<close> exceeds; which of
  several newest ones is left open.
\<close>

theorem findSnapshot_newest:
  assumes "DescribeSnapshots svc
             \<lparr>SnapshotFilters = [\<lparr>Name = ''tag:'' @ k, Values = [v]\<rparr>,
                                 \<lparr>Name = ''status'', Values = [''completed'']\<rparr>]\<rparr> w = (Inr snaps, w')"
    and "sorts (Sort svc) (Reverse ByStartTime_Less) snaps"
  shows "(snaps = [] \<longrightarrow> findSnapshot svc a k v w = ((None, None), w'))
       \<and> (snaps \<noteq> [] \<longrightarrow>
            (\<exists>s \<in> set snaps. findSnapshot svc a k v w = ((SnapshotId s, None), w')
               \<and> (\<forall>t \<in> set snaps. StartTime t \<le> StartTime s)))"
proof (cases "snaps = []")
  case True
  with assms(2) have "Sort svc (Reverse ByStartTime_Less) [] = []"
    by (simp add: sorts_def)
  with True assms(1) show ?thesis by (simp add: findSnapshot_def)
next
  case False
  from sorted_head_max [OF assms(2) False] obtain s rest where
    "Sort svc (Reverse ByStartTime_Less) snaps = s # rest" "s \<in> set snaps"
    "\<forall>t \<in> set snaps. StartTime t \<le> StartTime s" by blast
  with False assms(1) show ?thesis by (auto simp: findSnapshot_def)
qed

theorem findSnapshot_newest_witness:
  "findSnapshot three_snapshots aws0 ''Name'' ''nightly-backup'' 0 = ((Some ''snap-b'', None), 0)
   \<and> findSnapshot idle aws0 ''Name'' ''nightly-backup'' 0 = ((None, None), 0)"
proof -
  let ?l = "[\<lparr>SnapshotId = Some ''snap-a'', StartTime = 100\<rparr>,
              \<lparr>SnapshotId = Some ''snap-b'', StartTime = 300\<rparr>,
              \<lparr>SnapshotId = Some ''snap-c'', StartTime = 200\<rparr>]"
  have 1: "DescribeSnapshots three_snapshots
             \<lparr>SnapshotFilters = [\<lparr>Name = ''tag:'' @ ''Name'', Values = [''nightly-backup'']\<rparr>,
                                 \<lparr>Name = ''status'', Values = [''completed'']\<rparr>]\<rparr> 0 = (Inr ?l, 0)"
    by (simp add: three_snapshots_def)
  have 2: "sorts (Sort three_snapshots) (Reverse ByStartTime_Less) ?l"
    by (simp add: sorts_def three_snapshots_def idle_def sort_by_def insort_by_def
        Reverse_def ByStartTime_Less_def)
  have 3: "DescribeSnapshots idle
             \<lparr>SnapshotFilters = [\<lparr>Name = ''tag:'' @ ''Name'', Values = [''nightly-backup'']\<rparr>,
                                 \<lparr>Name = ''status'', Values = [''completed'']\<rparr>]\<rparr> 0 = (Inr [], 0)"
    by (simp add: idle_def)
  have 4: "sorts (Sort idle) (Reverse ByStartTime_Less) []"
    by (simp add: sorts_def idle_def sort_by_def)
  from findSnapshot_newest [OF 1 2, of aws0] findSnapshot_newest [OF 3 4, of aws0]
  show ?thesis by auto
qed

section \<open>createVolume\<close>

text \<open>
  C5. When the create-volume request succeeds and the tagging request that follows fails,
  \<open>createVolume\<close> returns the id of the new volume together with the error of the tagging
  request. The two requests are all it sends: nothing deletes the volume.
\<close>

theorem createVolume_tag_failure:
  assumes "CreateVolume svc
             \<lparr>cv_AvailabilityZone = AvailabilityZone a, cv_Size = sz, cv_VolumeType = ty,
              cv_SnapshotId = snap\<rparr> w = (Inr vol, w1)"
    and "CreateTags svc
           \<lparr>Resources = [VolumeId vol],
            Tags = [\<lparr>Key = ''Name'', Value = nm\<rparr>,
                    \<lparr>Key = ''filesystem'', Value = (if snap \<noteq> None then ''true'' else ''false'')\<rparr>]
                   @ map (\<lambda>(k, v). \<lparr>Key = k, Value = v\<rparr>) tags\<rparr> w1 = (Some e, w2)"
  shows "createVolume (spy svc) a sz nm ty tags snap (w, []) =
           ((VolumeId vol, Some e),
            (w2, [ECreateVolume
                    \<lparr>cv_AvailabilityZone = AvailabilityZone a, cv_Size = sz, cv_VolumeType = ty,
                     cv_SnapshotId = snap\<rparr> (Inr vol),
                  ECreateTags
                    \<lparr>Resources = [VolumeId vol],
                     Tags = [\<lparr>Key = ''Name'', Value = nm\<rparr>,
                             \<lparr>Key = ''filesystem'',
                              Value = (if snap \<noteq> None then ''true'' else ''false'')\<rparr>]
                            @ map (\<lambda>(k, v). \<lparr>Key = k, Value = v\<rparr>) tags\<rparr> (Some e)]))"
  using assms by (simp add: createVolume_def)

theorem createVolume_tag_failure_witness:
  "createVolume (spy tag_refused) aws0 20 ''staging-data'' ''gp2'' [(''env'', ''staging'')] None (0, []) =
     ((Some ''vol-new'', Some (AwsError ''RequestLimitExceeded'' ''Request limit exceeded'')),
      (0, [ECreateVolume
             \<lparr>cv_AvailabilityZone = ''us-east-1a'', cv_Size = 20, cv_VolumeType = ''gp2'',
              cv_SnapshotId = None\<rparr> (Inr \<lparr>VolumeId = Some ''vol-new''\<rparr>),
           ECreateTags
             \<lparr>Resources = [Some ''vol-new''],
              Tags = [\<lparr>Key = ''Name'', Value = ''staging-data''\<rparr>,
                      \<lparr>Key = ''filesystem'', Value = ''false''\<rparr>,
                      \<lparr>Key = ''env'', Value = ''staging''\<rparr>]\<rparr>
             (Some (AwsError ''RequestLimitExceeded'' ''Request limit exceeded''))]))"
  using createVolume_tag_failure [of tag_refused aws0 20 "''gp2''" None 0
      "\<lparr>VolumeId = Some ''vol-new''\<rparr>" 0 "''staging-data''" "[(''env'', ''staging'')]"
      "AwsError ''RequestLimitExceeded'' ''Request limit exceeded''" 0]
  by (simp add: tag_refused_def idle_def aws0_def)

section \<open>waitUntilVolumeAvailable\<close>

text \<open>
  C4, as the code has it. \<open>waitUntilVolumeAvailable\<close> fails exactly when the wait of the
  EC2 client fails, whatever the error is, and the error it returns is then always
  \<open>createFileSystemOnVolumeTimeout\<close>: the error of the client is dropped.
\<close>

theorem waitUntilVolumeAvailable_any_error:
  "waitUntilVolumeAvailable svc a vid w =
     ((if fst (WaitUntilVolumeAvailable svc \<lparr>Filters = [], VolumeIds = [vid]\<rparr> w) = None then None
       else Some createFileSystemOnVolumeTimeout),
      snd (WaitUntilVolumeAvailable svc \<lparr>Filters = [], VolumeIds = [vid]\<rparr> w))"
  by (simp add: waitUntilVolumeAvailable_def split: prod.splits option.splits)

text \<open>
  C4, as the claim has it, fails: on \<open>unauthorized\<close> the wait fails because its requests
  are refused, which is not the deadline of the waiter, and the result is the timeout
  error all the same.
\<close>

theorem waitUntilVolumeAvailable_timeout_counterexample:
  "fst (WaitUntilVolumeAvailable unauthorized \<lparr>Filters = [], VolumeIds = [''vol-new'']\<rparr> 0)
     = Some (AwsError ''UnauthorizedOperation'' ''You are not authorized'')
   \<and> \<not> waiter_deadline (AwsError ''UnauthorizedOperation'' ''You are not authorized'')
   \<and> fst (waitUntilVolumeAvailable unauthorized aws0 ''vol-new'' 0)
       = Some createFileSystemOnVolumeTimeout"
  by (simp add: waitUntilVolumeAvailable_def unauthorized_def idle_def)

section \<open>checkMountPoint\<close>

text \<open>
  C10. \<open>checkMountPoint\<close> answers "Already mounted" exactly when the mount point occurs
  somewhere in what was read of \<open>/proc/mounts\<close>. So it also does whenever the mount point
  is a proper part of any other string that occurs there, such as a longer path.
\<close>

theorem checkMountPoint_substring:
  assumes "ReadFile os ''/proc/mounts'' w = ((contents, rerr), w')"
  shows "checkMountPoint os a mp w =
           ((if sublist mp contents then Some (errorString ''Already mounted'') else None), w')
       \<and> (\<forall>other. strict_sublist mp other \<and> sublist other contents \<longrightarrow>
             fst (checkMountPoint os a mp w) = Some (errorString ''Already mounted''))"
  using assms
  by (auto simp: checkMountPoint_def slurpFile_def Contains_sublist strict_sublist_def
      intro: sublist_order.order_trans)

text \<open>
  On \<open>mounted_elsewhere\<close> the only mount point is \<open>/mnt/data2\<close>, and the check for
  \<open>/mnt/data\<close> fails.
\<close>

theorem checkMountPoint_substring_witness:
  "mount_points (fst (fst (ReadFile mounted_elsewhere ''/proc/mounts'' 0))) = [''/mnt/data2'']
   \<and> fst (checkMountPoint mounted_elsewhere aws0 ''/mnt/data'' 0) = Some (errorString ''Already mounted'')
   \<and> fst (checkMountPoint idle aws0 ''/mnt/data'' 0) = None"
proof -
  let ?c = "''/dev/xvdf /mnt/data2 ext4 rw,relatime 0 0'' @ [CHR 0x0A]"
  have 1: "ReadFile mounted_elsewhere ''/proc/mounts'' 0 = ((?c, None), 0)"
    by (simp add: mounted_elsewhere_def)
  have 2: "strict_sublist ''/mnt/data'' ''/mnt/data2'' \<and> sublist ''/mnt/data2'' ?c"
    by (simp add: strict_sublist_def sublist_code)
  have 3: "ReadFile idle ''/proc/mounts'' 0 = (([], None), 0)"
    by (simp add: idle_def)
  have 4: "mount_points ?c = [''/mnt/data2'']"
    by (simp add: mount_points_def)
  from checkMountPoint_substring [OF 1, of aws0 "''/mnt/data''"] 2
    checkMountPoint_substring [OF 3, of aws0 "''/mnt/data''"] 1 4
  show ?thesis by (auto simp: sublist_code)
qed

section \<open>waitForFile\<close>

lemma StackFrames_spy [simp]: "StackFrames (spy s) = StackFrames s"
  by (simp add: spy_def)

lemma int64_id: "- (2 ^ 63) \<le> x \<Longrightarrow> x < 2 ^ 63 \<Longrightarrow> int64 x = x"
  by (simp add: int64_def)

lemma Sub_ge:
  "u + d \<le> t \<Longrightarrow> 0 < d \<Longrightarrow> d \<le> maxDuration \<Longrightarrow> d \<le> Sub t u \<and> Sub t u \<le> maxDuration"
  by (simp add: Sub_def maxDuration_def minDuration_def)

lemma waitForFile_step:
  "waitForFile (spy os) f T depth (w, l) =
     (if StackFrames os \<le> depth then None
      else
        let s = fst (Now os w); w1 = snd (Now os w);
            r = fst (Stat os f w1); w2 = snd (Stat os f w1);
            t = fst (Now os w2); w3 = snd (Now os w2);
            nT = int64 (T - Sub t s)
        in if r = None then Some (None, (w2, l @ [ENow s, EStat f r]))
           else if 0 < nT
             then waitForFile (spy os) f nT (depth + 1) (w3, l @ [ENow s, EStat f r, ENow t])
           else Some (Some (errorString (''File '' @ f @ '' not found'')),
                      (w3, l @ [ENow s, EStat f r, ENow t])))"
  by (subst waitForFile.simps) (simp add: Let_def)

text \<open>
  When every poll takes \<open>d\<close> nanoseconds or more and the stack holds the \<open>T / d\<close> calls
  that this allows, the wait returns, with success or with the error, and within the
  timeout as the code measures it.
\<close>

lemma waitForFile_spy:
  assumes ptt: "polls_take os f d" and dpos: "0 < d" and dmax: "d \<le> maxDuration"
  shows "0 < T \<Longrightarrow> T \<le> maxDuration \<Longrightarrow> T \<le> d * int (StackFrames os - depth) \<Longrightarrow>
    \<exists>res w' tr. waitForFile (spy os) f T depth (w, l) = Some (res, (w', l @ tr))
       \<and> within_budget f T tr res"
proof (induction "nat T" arbitrary: T w l depth rule: less_induct)
  case less
  let ?s = "fst (Now os w)"
  let ?w1 = "snd (Now os w)"
  let ?r = "fst (Stat os f ?w1)"
  let ?w2 = "snd (Stat os f ?w1)"
  let ?t = "fst (Now os ?w2)"
  let ?w3 = "snd (Now os ?w2)"
  let ?d = "Sub ?t ?s"
  have "?s + d \<le> ?t"
    using ptt by (simp add: polls_take_def)
  then have d: "d \<le> ?d" "?d \<le> maxDuration"
    using Sub_ge [of ?s d ?t] dpos dmax by simp_all
  have depth: "depth < StackFrames os"
  proof (rule ccontr)
    assume "\<not> depth < StackFrames os"
    then have "StackFrames os - depth = 0" by simp
    with less.prems show False by simp
  qed
  have nT: "int64 (T - ?d) = T - ?d"
    using d dpos less.prems by (intro int64_id) (simp_all add: maxDuration_def)
  have step: "waitForFile (spy os) f T depth (w, l) =
     (if ?r = None then Some (None, (?w2, l @ [ENow ?s, EStat f ?r]))
      else if 0 < T - ?d
        then waitForFile (spy os) f (T - ?d) (depth + 1) (?w3, l @ [ENow ?s, EStat f ?r, ENow ?t])
      else Some (Some (errorString (''File '' @ f @ '' not found'')),
                 (?w3, l @ [ENow ?s, EStat f ?r, ENow ?t])))"
    using depth by (subst waitForFile_step) (simp only: Let_def nT not_le [symmetric] if_False)
  show ?case
  proof (cases "?r = None")
    case True
    then show ?thesis
      by (simp add: step within_budget_def)
  next
    case False
    show ?thesis
    proof (cases "0 < T - ?d")
      case False
      with \<open>?r \<noteq> None\<close> show ?thesis
        by (simp add: step within_budget_def)
    next
      case True
      have "nat (T - ?d) < nat T" using d dpos less.prems by simp
      moreover have "T - ?d \<le> maxDuration" using d dpos less.prems by simp
      moreover have "T - ?d \<le> d * int (StackFrames os - (depth + 1))"
      proof -
        have "int (StackFrames os - (depth + 1)) = int (StackFrames os - depth) - 1"
          using depth by simp
        then have "d * int (StackFrames os - (depth + 1)) = d * int (StackFrames os - depth) - d"
          by (simp add: algebra_simps)
        with d(1) less.prems(3) show ?thesis by simp
      qed
      ultimately obtain res w' tr where
        run: "waitForFile (spy os) f (T - ?d) (depth + 1) (?w3, l @ [ENow ?s, EStat f ?r, ENow ?t])
                = Some (res, (w', (l @ [ENow ?s, EStat f ?r, ENow ?t]) @ tr))"
        and wb: "within_budget f (T - ?d) tr res"
        using less.hyps [of "T - ?d" "depth + 1" ?w3 "l @ [ENow ?s, EStat f ?r, ENow ?t]"] True
        by blast
      let ?tr = "[ENow ?s, EStat f ?r, ENow ?t] @ tr"
      have sr: "stat_results ?tr = ?r # stat_results tr" by simp
      have pt: "poll_times ?tr = ?d # poll_times tr" by simp
      have ne: "stat_results tr \<noteq> []" using wb by (simp add: within_budget_def)
      have budget: "sum_list (take k (poll_times ?tr)) < T"
        if "0 < k" "k < length (stat_results ?tr)" for k
      proof (cases k)
        case 0
        with that show ?thesis by simp
      next
        case (Suc j)
        show ?thesis
        proof (cases "j = 0")
          case True
          with Suc \<open>0 < T - ?d\<close> show ?thesis by (simp add: pt)
        next
          case False
          with that Suc have "sum_list (take j (poll_times tr)) < T - ?d"
            using wb by (simp add: within_budget_def sr)
          with Suc show ?thesis by (simp add: pt)
        qed
      qed
      have "within_budget f T ?tr res"
        unfolding within_budget_def
      proof (intro conjI)
        show "res = None \<or> res = Some (errorString (''File '' @ f @ '' not found''))"
          using wb by (auto simp: within_budget_def)
        show "stat_results ?tr \<noteq> []" by simp
        show "(res = None) = (last (stat_results ?tr) = None)"
          using wb ne by (auto simp: within_budget_def)
        show "None \<notin> set (butlast (stat_results ?tr))"
          using wb ne \<open>?r \<noteq> None\<close> by (auto simp: within_budget_def)
        show "res \<noteq> None \<longrightarrow> T \<le> sum_list (poll_times ?tr)"
          using wb by (auto simp: within_budget_def pt)
        show "\<forall>k. 0 < k \<and> k < length (stat_results ?tr) \<longrightarrow> sum_list (take k (poll_times ?tr)) < T"
          using budget by blast
      qed
      moreover have "waitForFile (spy os) f T depth (w, l) = Some (res, (w', l @ ?tr))"
        using \<open>?r \<noteq> None\<close> True run by (simp add: step)
      ultimately show ?thesis by blast
    qed
  qed
qed

lemma Second_bounds: "0 < 60 * Second" "60 * Second \<le> maxDuration"
  by (simp_all add: Second_def maxDuration_def)

lemma attachVolume_spy_returns:
  assumes "polls_take os (''/dev/'' @ dev) d" "0 < d" "d \<le> maxDuration"
    and "60 * Second \<le> d * int (StackFrames os)"
  shows "attachVolume (spy os) a vid dev dot (w, l) \<noteq> None"
proof -
  have wf: "(waitForFile (spy os) (''/dev/'' @ dev) (60 * Second) 0 (w', l') = None) = False" for w' l'
    using waitForFile_spy [OF assms(1-3) Second_bounds, of 0 w' l'] assms(4) by auto
  show ?thesis
    by (auto simp: attachVolume_def Let_def wf simp del: append.simps split: prod.splits option.splits)
qed

text \<open>
  Two runs: on \<open>idle\<close> the device node never appears and the third poll uses up the
  budget; on \<open>device_appears\<close> the third poll finds it.
\<close>

lemma idle_eval:
  "waitForFile (spy idle) ''/dev/xvdb'' (60 * Second) 0 (0, []) =
     Some (Some (errorString ''File /dev/xvdb not found''), (60000000000,
       [ENow 0, EStat ''/dev/xvdb'' (Some (ErrNotExist ''/dev/xvdb'')), ENow 20000000000,
        ENow 20000000000, EStat ''/dev/xvdb'' (Some (ErrNotExist ''/dev/xvdb'')), ENow 40000000000,
        ENow 40000000000, EStat ''/dev/xvdb'' (Some (ErrNotExist ''/dev/xvdb'')), ENow 60000000000]))"
  by (simp add: waitForFile_step idle_def Second_def Sub_def int64_def maxDuration_def
      minDuration_def Let_def)

lemma appears_eval:
  "waitForFile (spy device_appears) ''/dev/xvdb'' (60 * Second) 0 (0, []) =
     Some (None, (60000000000,
       [ENow 0, EStat ''/dev/xvdb'' (Some (ErrNotExist ''/dev/xvdb'')), ENow 20000000000,
        ENow 20000000000, EStat ''/dev/xvdb'' (Some (ErrNotExist ''/dev/xvdb'')), ENow 40000000000,
        ENow 40000000000, EStat ''/dev/xvdb'' None]))"
  by (simp add: waitForFile_step idle_def device_appears_def Second_def Sub_def int64_def
      maxDuration_def minDuration_def Let_def)


lemma idle_wait:
  "waitForFile idle f (60 * Second) 0 w = Some (Some (errorString (''File '' @ f @ '' not found'')), w + 60000000000)"
  by (simp add: waitForFile.simps idle_def Second_def Sub_def int64_def maxDuration_def
      minDuration_def Let_def)

lemma idle_attachVolume:
  "attachVolume idle a vid dev False w =
     Some (Some (errorString (''File '' @ (''/dev/'' @ dev) @ '' not found'')), w + 60000000000)"
proof -
  have "AttachVolume idle i w = (None, w)" "WaitUntilVolumeInUse idle j w = (None, w)" for i j
    by (simp_all add: idle_def)
  then show ?thesis
    by (simp add: attachVolume_def Let_def idle_wait)
qed

text \<open>
  On \<open>fast\<close> every poll takes a microsecond and lowers the timeout by as much, so the
  sixty seconds allow sixty million nested calls. The stack holds fewer.
\<close>

lemma fast_overflow:
  "depth \<le> StackFrames fast \<Longrightarrow> 1000 * int (StackFrames fast - depth) < T \<Longrightarrow> T \<le> maxDuration \<Longrightarrow>
     waitForFile fast f T depth w = None"
proof (induction "StackFrames fast - depth" arbitrary: depth T w)
  case 0
  then show ?case by (subst waitForFile.simps) simp
next
  case (Suc n)
  then have depth: "depth < StackFrames fast" "n = StackFrames fast - (depth + 1)"
    "depth + 1 \<le> StackFrames fast" by simp_all
  have T: "1000 < T" "1000 * int (StackFrames fast - (depth + 1)) < T - 1000"
    using Suc.prems(2) Suc.hyps(2) by simp_all
  have sub: "Sub (w + 1000) w = 1000"
    by (simp add: Sub_def maxDuration_def minDuration_def)
  have nT: "int64 (T - 1000) = T - 1000"
    using T(1) Suc.prems(3) by (intro int64_id) (simp_all add: maxDuration_def)
  have rec: "waitForFile fast f (T - 1000) (depth + 1) (w + 1000) = None"
    using Suc.hyps(1) [OF depth(2) depth(3) T(2)] Suc.prems(3) by simp
  have "Now fast w = (w, w)" "Stat fast f w = (Some (ErrNotExist f), w + 1000)" for w
    by (simp_all add: fast_def idle_def)
  with depth(1) T(1) rec show ?case
    by (subst waitForFile.simps) (simp add: Let_def sub nT)
qed

lemma fast_attachVolume: "attachVolume fast aws0 vid dev False w = None"
proof -
  have "waitForFile fast (''/dev/'' @ dev) (60 * Second) 0 w = None"
    by (rule fast_overflow) (simp_all add: fast_def idle_def Second_def maxDuration_def)
  moreover have "AttachVolume fast i w = (None, w)" "WaitUntilVolumeInUse fast j w = (None, w)" for i j
    by (simp_all add: fast_def idle_def)
  ultimately show ?thesis
    by (simp add: attachVolume_def Let_def)
qed

text \<open>
  C9 against the code. On \<open>fast\<close> and on \<open>drifting\<close> every poll takes time, as the
  claim assumes. On \<open>fast\<close> the wait neither succeeds nor returns the "not found" error:
  the nested calls exhaust the stack, the wait does not return, and neither do
  \<open>attachVolume\<close> and the run that creates a volume and waits for its device. On
  \<open>drifting\<close> the wait makes fifteen polls, and the last six start more than sixty
  seconds after the first: each call reads \<open>startTime\<close> anew, so the time that passes
  between two polls is never taken off the timeout.
\<close>

theorem waitForFile_overruns:
  "polls_take fast ''/dev/xvdb'' 1000
   \<and> waitForFile fast ''/dev/xvdb'' (60 * Second) 0 0 = None
   \<and> attachVolume fast aws0 ''vol-new'' ''xvdb'' False 0 = None
   \<and> runAsgEbs (awsAsgEbsI fast aws0) cfg0 0 = None
   \<and> polls_take drifting ''/dev/xvdb'' Second
   \<and> poll_starts (calls (waitForFile (spy drifting) ''/dev/xvdb'' (60 * Second) 0 (0, []))) =
       [0, 7000000000, 14000000000, 21000000000, 28000000000, 35000000000, 42000000000,
        49000000000, 56000000000, 63000000000, 70000000000, 77000000000, 84000000000,
        91000000000, 98000000000]"
proof -
  have 1: "polls_take fast ''/dev/xvdb'' 1000"
    by (simp add: polls_take_def fast_def idle_def)
  have 2: "waitForFile fast ''/dev/xvdb'' (60 * Second) 0 0 = None"
    by (rule fast_overflow) (simp_all add: fast_def idle_def Second_def maxDuration_def)
  have 3: "attachVolume fast aws0 ''vol-new'' ''xvdb'' False 0 = None"
    by (rule fast_attachVolume)
  have ops: "Stat fast f w = (Some (ErrNotExist f), w + 1000)"
    "ReadFile fast f w = (([], None), w)" "DescribeVolumes fast dv w = (Inr [], w)"
    "CreateVolume fast cv w = (Inr \<lparr>VolumeId = Some ''vol-new''\<rparr>, w)"
    "CreateTags fast ct w = (None, w)" "WaitUntilVolumeAvailable fast dv w = (None, w)"
    for f w dv cv ct
    by (simp_all add: fast_def idle_def)
  have 4: "runAsgEbs (awsAsgEbsI fast aws0) cfg0 0 = None"
    by (simp add: runAsgEbs_def awsAsgEbsI_def acquire_def create_def cfg0_def reuseLoop.simps
        checkDevice_def checkMountPoint_def slurpFile_def findVolume_def createVolume_def
        waitUntilVolumeAvailable_def fast_attachVolume IsNotExist_def ops)
  have 5: "polls_take drifting ''/dev/xvdb'' Second"
    by (simp add: polls_take_def drifting_def idle_def Second_def)
  have 6: "poll_starts (calls (waitForFile (spy drifting) ''/dev/xvdb'' (60 * Second) 0 (0, []))) =
       [0, 7000000000, 14000000000, 21000000000, 28000000000, 35000000000, 42000000000,
        49000000000, 56000000000, 63000000000, 70000000000, 77000000000, 84000000000,
        91000000000, 98000000000]"
    by (simp add: waitForFile_step drifting_def idle_def Second_def Sub_def int64_def
        maxDuration_def minDuration_def Let_def calls_def)
  from 1 2 3 4 5 6 show ?thesis by blast
qed

section \<open>The interface observed\<close>

lemma checkDeviceI_logged [simp]:
  "checkDeviceI (logged a) d (w, l) =
     (case checkDeviceI a d w of None \<Rightarrow> None
      | Some (r, w') \<Rightarrow> Some (r, (w', l @ [CcheckDevice d r])))"
  by (simp add: logged_def observeI_def)

lemma checkMountPointI_logged [simp]:
  "checkMountPointI (logged a) m (w, l) =
     (case checkMountPointI a m w of None \<Rightarrow> None
      | Some (r, w') \<Rightarrow> Some (r, (w', l @ [CcheckMountPoint m r])))"
  by (simp add: logged_def observeI_def)

lemma findVolumeI_logged [simp]:
  "findVolumeI (logged a) k v (w, l) =
     (case findVolumeI a k v w of None \<Rightarrow> None
      | Some (r, w') \<Rightarrow> Some (r, (w', l @ [CfindVolume k v r])))"
  by (simp add: logged_def observeI_def)

lemma attachVolumeI_logged [simp]:
  "attachVolumeI (logged a) v d t (w, l) =
     (case attachVolumeI a v d t w of None \<Rightarrow> None
      | Some (r, w') \<Rightarrow> Some (r, (w', l @ [CattachVolume v d t r])))"
  by (simp add: logged_def observeI_def)

lemma findSnapshotI_logged [simp]:
  "findSnapshotI (logged a) k v (w, l) =
     (case findSnapshotI a k v w of None \<Rightarrow> None
      | Some (r, w') \<Rightarrow> Some (r, (w', l @ [CfindSnapshot k v r])))"
  by (simp add: logged_def observeI_def)

lemma createVolumeI_logged [simp]:
  "createVolumeI (logged a) sz nm ty tags snap (w, l) =
     (case createVolumeI a sz nm ty tags snap w of None \<Rightarrow> None
      | Some (r, w') \<Rightarrow> Some (r, (w', l @ [CcreateVolume sz nm ty tags snap r])))"
  by (simp add: logged_def observeI_def)

lemma mountVolumeI_logged [simp]:
  "mountVolumeI (logged a) d m (w, l) =
     (case mountVolumeI a d m w of None \<Rightarrow> None
      | Some (r, w') \<Rightarrow> Some (r, (w', l @ [CmountVolume d m r])))"
  by (simp add: logged_def observeI_def)

lemma makeFileSystemI_logged [simp]:
  "makeFileSystemI (logged a) d r v (w, l) =
     (case makeFileSystemI a d r v w of None \<Rightarrow> None
      | Some (e, w') \<Rightarrow> Some (e, (w', l @ [CmakeFileSystem d r v e])))"
  by (simp add: logged_def observeI_def)

lemma waitUntilVolumeAvailableI_logged [simp]:
  "waitUntilVolumeAvailableI (logged a) v (w, l) =
     (case waitUntilVolumeAvailableI a v w of None \<Rightarrow> None
      | Some (r, w') \<Rightarrow> Some (r, (w', l @ [CwaitUntilVolumeAvailable v r])))"
  by (simp add: logged_def observeI_def)

lemma reuse_iters_find_attach [simp]:
  "reuse_iters (CfindVolume k v (Some x, None) # CattachVolume x d t r # rest) =
     map_option Suc (reuse_iters rest)"
  by simp

lemma reuse_iters_find_only [simp]:
  "vid = None \<or> err \<noteq> None \<Longrightarrow> reuse_iters [CfindVolume k v (vid, err)] = Some 1"
  by (cases vid; cases err) auto

lemma reuseLoop_logged_step:
  "reuseLoop (logged a) cfg i vol (w, l) =
     (if i \<le> 10 then
        (case findVolumeI a (tagKey cfg) (tagValue cfg) w of
           None \<Rightarrow> None
         | Some ((vid, err), w1) \<Rightarrow>
             if err \<noteq> None \<or> vid = None then
               Some ((if err \<noteq> None then Inl (Fatal ''Failed to find volume'') else Inr None),
                     (w1, l @ [CfindVolume (tagKey cfg) (tagValue cfg) (vid, err)]))
             else
               (case attachVolumeI a (the vid) (attachAs cfg) (deleteOnTermination cfg) w1 of
                  None \<Rightarrow> None
                | Some (aerr, w2) \<Rightarrow>
                    if aerr \<noteq> None then
                      reuseLoop (logged a) cfg (i + 1) vid
                        (w2, l @ [CfindVolume (tagKey cfg) (tagValue cfg) (vid, err),
                                  CattachVolume (the vid) (attachAs cfg) (deleteOnTermination cfg) aerr])
                    else Some (Inr vid,
                        (w2, l @ [CfindVolume (tagKey cfg) (tagValue cfg) (vid, err),
                                  CattachVolume (the vid) (attachAs cfg) (deleteOnTermination cfg) aerr]))))
      else Some (Inr vol, (w, l)))"
  by (subst reuseLoop.simps) (auto split: option.splits)

lemma reuseLoop_logged:
  "reuseLoop (logged a) cfg i vol (w, l) = Some (res, (w', l')) \<Longrightarrow> i \<le> 11 \<Longrightarrow>
     \<exists>lt. l' = l @ lt \<and> loop_log i lt res"
proof (induction "11 - i" arbitrary: i vol w l)
  case 0
  then show ?case
    by (subst (asm) reuseLoop_logged_step) (auto simp: loop_log_def)
next
  case (Suc m)
  then have i: "i \<le> 10" "m = 11 - (i + 1)" "i + 1 \<le> 11" by simp_all
  note eq = Suc.prems(1) [unfolded reuseLoop_logged_step [of a cfg i vol w l]]
  from eq i(1) obtain vid err w1 where
    fv: "findVolumeI a (tagKey cfg) (tagValue cfg) w = Some ((vid, err), w1)"
    by (auto split: option.splits)
  let ?l1 = "l @ [CfindVolume (tagKey cfg) (tagValue cfg) (vid, err)]"
  show ?case
  proof (cases "err \<noteq> None \<or> vid = None")
    case True
    with eq fv i(1) have "l' = ?l1" "res \<noteq> Inr None \<or> vid = None"
      by (auto split: if_splits)
    then show ?thesis
      using True i(1) by (auto simp: loop_log_def)
  next
    case False
    then obtain x where x: "vid = Some x" "err = None" by auto
    from eq fv i(1) x obtain aerr w2 where
      av: "attachVolumeI a x (attachAs cfg) (deleteOnTermination cfg) w1 = Some (aerr, w2)"
      by (auto split: option.splits)
    let ?l2 = "l @ [CfindVolume (tagKey cfg) (tagValue cfg) (vid, err),
                    CattachVolume x (attachAs cfg) (deleteOnTermination cfg) aerr]"
    show ?thesis
    proof (cases "aerr = None")
      case True
      with eq fv i(1) x av have "l' = ?l2" "res = Inr (Some x)"
        by simp_all
      then show ?thesis
        using x True i(1) by (auto simp: loop_log_def)
    next
      case False
      with eq fv i(1) x av
      have rec: "reuseLoop (logged a) cfg (i + 1) vid (w2, ?l2) = Some (res, (w', l'))"
        by simp
      from Suc.hyps(1) [OF i(2) rec i(3)] obtain lt where
        lt: "l' = ?l2 @ lt" "loop_log (i + 1) lt res" by auto
      then show ?thesis
        using x False by (auto simp: loop_log_def)
    qed
  qed
qed



lemma reuse_iters_loop_call: "reuse_iters lt = Some n \<Longrightarrow> list_all loop_call lt"
  by (induction lt arbitrary: n rule: reuse_iters.induct)
     (auto split: list.splits call.splits if_splits)

lemma acquire_logged_reuse:
  assumes "acquire (logged a) cfg (w, l) = Some (r, (w', l'))" and "snapshotName cfg = []"
  shows "\<exists>lt n. l' = l @ lt \<and> reuse_iters lt = Some n \<and> n \<le> 10 \<and> list_all loop_call lt
      \<and> (\<forall>vid sid. r = Inr (vid, sid) \<longrightarrow> sid = None \<and> (vid = None \<longrightarrow> \<not> list_ex attach_ok lt))"
proof -
  from assms obtain res where
    loop: "reuseLoop (logged a) cfg 1 None (w, l) = Some (res, (w', l'))"
    and r: "r = (case res of Inl ex \<Rightarrow> Inl ex | Inr vid \<Rightarrow> Inr (vid, None))"
    by (auto simp: acquire_def split: option.splits sum.splits)
  from reuseLoop_logged [OF loop] obtain lt where lt: "l' = l @ lt" "loop_log 1 lt res" by auto
  then obtain n where n: "reuse_iters lt = Some n" "n \<le> 10" "list_all loop_call lt"
    and ok: "res = Inr None \<longrightarrow> \<not> list_ex attach_ok lt"
    unfolding loop_log_def by auto
  have "sid = None \<and> (vid = None \<longrightarrow> \<not> list_ex attach_ok lt)" if "r = Inr (vid, sid)" for vid sid
    using that r ok by (cases res) auto
  with lt(1) n show ?thesis by blast
qed

lemma acquire_logged_snapshot:
  assumes "acquire (logged a) cfg (w, l) = Some (r, (w', l'))" and "snapshotName cfg \<noteq> []"
  shows "\<exists>res. l' = l @ [CfindSnapshot ''Name'' (snapshotName cfg) res]
               \<and> (\<forall>vid sid. r = Inr (vid, sid) \<longrightarrow> vid = None \<and> res = (sid, None))"
  using assms
  by (auto simp: acquire_def split: option.splits if_splits)

lemma create_logged:
  assumes "create (logged a) cfg sid (w, l) = Some (r, (w', l'))"
  shows "\<exists>res. 
       (l' = l @ [CcreateVolume (createSize cfg) (createName cfg) (createVolumeType cfg) (createTags cfg) sid res]
          \<and> (snd res \<noteq> None \<or> fst res = None) \<and> (\<exists>ex. r = Inl ex))
     \<or> (\<exists>v e. res = (Some v, None)
          \<and> l' = l @ [CcreateVolume (createSize cfg) (createName cfg) (createVolumeType cfg) (createTags cfg) sid res,
                      CwaitUntilVolumeAvailable v (Some e)]
          \<and> (\<exists>ex. r = Inl ex))
     \<or> (\<exists>v e. res = (Some v, None)
          \<and> l' = l @ [CcreateVolume (createSize cfg) (createName cfg) (createVolumeType cfg) (createTags cfg) sid res,
                      CwaitUntilVolumeAvailable v None,
                      CattachVolume v (attachAs cfg) (deleteOnTermination cfg) (Some e)]
          \<and> (\<exists>ex. r = Inl ex))
     \<or> (\<exists>v. res = (Some v, None)
          \<and> l' = l @ [CcreateVolume (createSize cfg) (createName cfg) (createVolumeType cfg) (createTags cfg) sid res,
                      CwaitUntilVolumeAvailable v None,
                      CattachVolume v (attachAs cfg) (deleteOnTermination cfg) None]
          \<and> r = Inr (Some v, sid = None))"
  using assms
  by (auto simp: create_def Let_def split: option.splits if_splits)

lemma finish_logged:
  assumes "finish (logged a) cfg vid cfs (w, l) = Some (ex, (w', l'))"
  shows "(cfs \<and> vid = None \<and> l' = l)
     \<or> (\<exists>v e. cfs \<and> vid = Some v
          \<and> l' = l @ [CmakeFileSystem (''/dev/'' @ attachAs cfg) (mkfsInodeRatio cfg) v (Some e)])
     \<or> (\<exists>v m. cfs \<and> vid = Some v
          \<and> l' = l @ [CmakeFileSystem (''/dev/'' @ attachAs cfg) (mkfsInodeRatio cfg) v None,
                      CmountVolume (''/dev/'' @ attachAs cfg) (mountPoint cfg) m])
     \<or> (\<exists>m. \<not> cfs \<and> l' = l @ [CmountVolume (''/dev/'' @ attachAs cfg) (mountPoint cfg) m])"
  using assms
  by (auto simp: finish_def Let_def split: option.splits if_splits)

section \<open>The orchestration, phase by phase\<close>

lemma runAsgEbs_logged_cases [consumes 1, case_names checks acquire_fatal reused create_fatal created]:
  assumes run: "runAsgEbs (logged a) cfg (w, []) = Some (ex, (w', tr))"
  obtains "list_all is_check tr"
  | pre wa wb x where "list_all is_check pre"
      "acquire (logged a) cfg (wa, pre) = Some (Inl x, (wb, tr))"
  | pre wa wb la vid sid where "list_all is_check pre"
      "acquire (logged a) cfg (wa, pre) = Some (Inr (Some vid, sid), (wb, la))"
      "finish (logged a) cfg (Some vid) False (wb, la) = Some (ex, (w', tr))"
  | pre wa wb la sid wc x where "list_all is_check pre"
      "acquire (logged a) cfg (wa, pre) = Some (Inr (None, sid), (wb, la))"
      "create (logged a) cfg sid (wb, la) = Some (Inl x, (wc, tr))"
  | pre wa wb la sid wc lc v cfs where "list_all is_check pre"
      "acquire (logged a) cfg (wa, pre) = Some (Inr (None, sid), (wb, la))"
      "create (logged a) cfg sid (wb, la) = Some (Inr (v, cfs), (wc, lc))"
      "finish (logged a) cfg v cfs (wc, lc) = Some (ex, (w', tr))"
proof -
  let ?dev = "''/dev/'' @ attachAs cfg"
  from run obtain e1 w1 where
    cd: "checkDeviceI a ?dev w = Some (e1, w1)"
    by (auto simp: runAsgEbs_def Let_def split: option.splits)
  show ?thesis
  proof (cases "e1 = None")
    case False
    with run cd have "tr = [CcheckDevice ?dev e1]"
      by (auto simp: runAsgEbs_def Let_def)
    then show ?thesis by (intro that(1)) simp
  next
    case True
    with run cd obtain e2 w2 where
      cm: "checkMountPointI a (mountPoint cfg) w1 = Some (e2, w2)"
      by (auto simp: runAsgEbs_def Let_def split: option.splits)
    let ?pre = "[CcheckDevice ?dev e1, CcheckMountPoint (mountPoint cfg) e2]"
    have pre: "list_all is_check ?pre" by simp
    show ?thesis
    proof (cases "e2 = None")
      case False
      with run cd cm True have "tr = ?pre"
        by (auto simp: runAsgEbs_def Let_def)
      then show ?thesis by (intro that(1)) simp
    next
      case e2: True
      with run cd cm True obtain r wb la where
        acq: "acquire (logged a) cfg (w2, ?pre) = Some (r, (wb, la))"
        by (auto simp: runAsgEbs_def Let_def split: option.splits)
      have run': "(case r of
            Inl ex \<Rightarrow> Some (ex, (wb, la))
          | Inr (volumeId, snapshotId) \<Rightarrow>
              if volumeId = None then
                (case create (logged a) cfg snapshotId (wb, la) of
                   None \<Rightarrow> None
                 | Some (Inl ex, w4) \<Rightarrow> Some (ex, w4)
                 | Some (Inr (v', cfs), w4) \<Rightarrow> finish (logged a) cfg v' cfs w4)
              else finish (logged a) cfg volumeId False (wb, la)) = Some (ex, (w', tr))"
        using run cd cm True e2 acq by (simp add: runAsgEbs_def Let_def)
      show ?thesis
      proof (cases r)
        case (Inl x)
        with run' acq have "acquire (logged a) cfg (w2, ?pre) = Some (Inl x, (wb, tr))"
          by simp
        with pre show ?thesis by (rule that(2))
      next
        case (Inr p)
        obtain vid sid where p: "p = (vid, sid)" by (cases p)
        show ?thesis
        proof (cases vid)
          case (Some v)
          with run' Inr p have "finish (logged a) cfg (Some v) False (wb, la) = Some (ex, (w', tr))"
            by simp
          with pre acq Inr p Some show ?thesis by (intro that(3)) auto
        next
          case None
          with run' Inr p obtain rc wc lc where
            cr: "create (logged a) cfg sid (wb, la) = Some (rc, (wc, lc))"
            by (auto split: option.splits)
          have run'': "(case rc of Inl ex \<Rightarrow> Some (ex, (wc, lc))
                         | Inr (v', cfs) \<Rightarrow> finish (logged a) cfg v' cfs (wc, lc))
                       = Some (ex, (w', tr))"
            using run' Inr p None cr by (simp split: sum.splits)
          show ?thesis
          proof (cases rc)
            case (Inl x)
            with run'' cr have "create (logged a) cfg sid (wb, la) = Some (Inl x, (wc, tr))"
              by simp
            with pre acq Inr p None show ?thesis by (intro that(4)) auto
          next
            case (Inr q)
            obtain v cfs where q: "q = (v, cfs)" by (cases q)
            with run'' Inr have "finish (logged a) cfg v cfs (wc, lc) = Some (ex, (w', tr))"
              by simp
            with pre acq \<open>r = Inr p\<close> p None cr Inr q show ?thesis by (intro that(5)) auto
          qed
        qed
      qed
    qed
  qed
qed

lemma returnsD:
  assumes "returns b"
  shows "(checkDeviceI b d w = None) = False" "(checkMountPointI b m w = None) = False"
    "(findVolumeI b k v w = None) = False" "(attachVolumeI b vol d t w = None) = False"
    "(findSnapshotI b k v w = None) = False" "(createVolumeI b sz nm ty tags s w = None) = False"
    "(mountVolumeI b d m w = None) = False" "(makeFileSystemI b d r vol w = None) = False"
    "(waitUntilVolumeAvailableI b vol w = None) = False"
  using assms unfolding returns_def by simp_all

lemma returns_logged:
  assumes "returns a"
  shows "returns (logged a)"
  unfolding returns_def
  by (simp add: returnsD [OF assms] split_paired_all split: option.splits)

lemma reuseLoop_returns:
  assumes "returns b"
  shows "i \<le> 11 \<Longrightarrow> reuseLoop b cfg i vol w \<noteq> None"
proof (induction "11 - i" arbitrary: i vol w)
  case 0
  then show ?case by (subst reuseLoop.simps) simp
next
  case (Suc m)
  then have i: "i \<le> 10" "m = 11 - (i + 1)" "i + 1 \<le> 11" by simp_all
  have rec: "(reuseLoop b cfg (Suc i) vol' w' = None) = False" for vol' w'
    using Suc.hyps(1) [OF i(2) i(3)] by simp
  show ?case
    by (subst reuseLoop.simps) (simp add: i(1) returnsD [OF assms] rec del: not_None_eq split: option.splits prod.splits)
qed

lemma acquire_returns:
  assumes "returns b"
  shows "acquire b cfg w \<noteq> None"
proof -
  have "(reuseLoop b cfg 1 None w = None) = False"
    using reuseLoop_returns [OF assms, of 1 cfg None w] by simp
  then show ?thesis
    by (simp add: acquire_def returnsD [OF assms] del: not_None_eq split: option.splits sum.splits prod.splits)
qed

lemma create_returns: "returns b \<Longrightarrow> create b cfg sid w \<noteq> None"
  by (simp add: create_def Let_def returnsD del: not_None_eq split: option.splits prod.splits)

lemma finish_returns: "returns b \<Longrightarrow> finish b cfg vid cfs w \<noteq> None"
  by (simp add: finish_def Let_def returnsD del: not_None_eq split: option.splits prod.splits)

lemma runAsgEbs_returns:
  assumes "returns b"
  shows "runAsgEbs b cfg w \<noteq> None"
proof -
  have 1: "(acquire b cfg w1 = None) = False" for w1
    using acquire_returns [OF assms] by simp
  have 2: "(create b cfg sid w1 = None) = False" for sid w1
    using create_returns [OF assms] by simp
  have 3: "(finish b cfg vid cfs w1 = None) = False" for vid cfs w1
    using finish_returns [OF assms] by simp
  show ?thesis
    by (simp add: runAsgEbs_def Let_def 1 2 3 returnsD [OF assms] del: not_None_eq
        split: option.splits sum.splits prod.splits)
qed

lemma create_logs:
  assumes "create (logged a) cfg sid (wb, la) = Some (rc, (wc, lc))"
  shows "\<exists>ct. lc = la @ ct \<and> \<not> list_ex is_findVolume ct"
  using create_logged [OF assms] by auto

lemma finish_logs:
  assumes "finish (logged a) cfg vid cfs (w, l) = Some (ex, (w', l'))"
  shows "\<exists>ft. l' = l @ ft \<and> \<not> list_ex is_findVolume ft"
  using finish_logged [OF assms] by auto

lemma stub_returns: "returns (stub found attachErr snap)"
  by (simp add: returns_def stub_def)

section \<open>What the orchestration calls\<close>

lemma loop_call_acquire_call: "loop_call c \<Longrightarrow> acquire_call c"
  by (cases c) simp_all

lemma acquire_logs:
  assumes "acquire (logged a) cfg (w, l) = Some (r, (w', l'))"
  shows "\<exists>lt. l' = l @ lt \<and> list_all acquire_call lt
           \<and> (\<forall>sid. r = Inr (None, sid) \<longrightarrow> \<not> list_ex attach_ok lt)"
proof (cases "snapshotName cfg = []")
  case True
  from acquire_logged_reuse [OF assms True] obtain lt where
    lt: "l' = l @ lt" "list_all loop_call lt"
    "\<forall>vid sid. r = Inr (vid, sid) \<longrightarrow> sid = None \<and> (vid = None \<longrightarrow> \<not> list_ex attach_ok lt)"
    by blast
  from lt(2) have "list_all acquire_call lt"
    by (simp add: list_all_iff loop_call_acquire_call)
  with lt show ?thesis by blast
next
  case False
  from acquire_logged_snapshot [OF assms False] show ?thesis by auto
qed

lemma not_check:
  "is_makeFileSystem c \<Longrightarrow> \<not> is_check c" "is_createVolume c \<Longrightarrow> \<not> is_check c"
  by (cases c; simp)+

lemma not_acquire_call:
  "is_makeFileSystem c \<Longrightarrow> \<not> acquire_call c" "is_createVolume c \<Longrightarrow> \<not> acquire_call c"
  by (cases c; simp)+

lemma is_check_simps2:
  "list_all is_check l \<Longrightarrow> CcreateVolume sz nm ty tags snap res \<notin> set l"
  "list_all is_check l \<Longrightarrow> \<not> list_ex is_makeFileSystem l"
  "list_all is_check l \<Longrightarrow> CwaitUntilVolumeAvailable v e \<notin> set l"
  "list_all is_check l \<Longrightarrow> CattachVolume v d t e \<notin> set l"
  by (auto simp: list_all_iff list_ex_iff dest: not_check)

lemma acquire_call_simps2:
  "list_all acquire_call l \<Longrightarrow> CcreateVolume sz nm ty tags snap res \<notin> set l"
  "list_all acquire_call l \<Longrightarrow> \<not> list_ex is_makeFileSystem l"
  "list_all acquire_call l \<Longrightarrow> CwaitUntilVolumeAvailable v e \<notin> set l"
  by (auto simp: list_all_iff list_ex_iff dest: not_acquire_call)

lemma attach_ok_mem: "\<not> list_ex attach_ok l \<Longrightarrow> CattachVolume v d t None \<notin> set l"
  by (auto simp: list_ex_iff)

lemma create_logged_cases [consumes 1, case_names create_failed wait_failed attach_failed attached]:
  assumes "create (logged a) cfg sid (w, l) = Some (r, (w', l'))"
  obtains res x where
      "l' = l @ [CcreateVolume (createSize cfg) (createName cfg) (createVolumeType cfg) (createTags cfg) sid res]"
      "snd res \<noteq> None \<or> fst res = None" "r = Inl x"
  | v e x where
      "l' = l @ [CcreateVolume (createSize cfg) (createName cfg) (createVolumeType cfg) (createTags cfg) sid
                   (Some v, None),
                 CwaitUntilVolumeAvailable v (Some e)]" "r = Inl x"
  | v e x where
      "l' = l @ [CcreateVolume (createSize cfg) (createName cfg) (createVolumeType cfg) (createTags cfg) sid
                   (Some v, None),
                 CwaitUntilVolumeAvailable v None,
                 CattachVolume v (attachAs cfg) (deleteOnTermination cfg) (Some e)]" "r = Inl x"
  | v where
      "l' = l @ [CcreateVolume (createSize cfg) (createName cfg) (createVolumeType cfg) (createTags cfg) sid
                   (Some v, None),
                 CwaitUntilVolumeAvailable v None,
                 CattachVolume v (attachAs cfg) (deleteOnTermination cfg) None]"
      "r = Inr (Some v, sid = None)"
  using create_logged [OF assms] by (elim exE disjE conjE) blast+

lemma finish_logged_cases [consumes 1, case_names nil format_failed formatted reused]:
  assumes "finish (logged a) cfg vid cfs (w, l) = Some (ex, (w', l'))"
  obtains "cfs" "vid = None" "l' = l"
  | v e where "cfs" "vid = Some v"
      "l' = l @ [CmakeFileSystem (''/dev/'' @ attachAs cfg) (mkfsInodeRatio cfg) v (Some e)]"
  | v m where "cfs" "vid = Some v"
      "l' = l @ [CmakeFileSystem (''/dev/'' @ attachAs cfg) (mkfsInodeRatio cfg) v None,
                 CmountVolume (''/dev/'' @ attachAs cfg) (mountPoint cfg) m]"
  | m where "\<not> cfs" "l' = l @ [CmountVolume (''/dev/'' @ attachAs cfg) (mountPoint cfg) m]"
  using finish_logged [OF assms] by (elim exE disjE conjE) blast+

lemma format_follows_creation:
  assumes run: "runAsgEbs (logged i) cfg (w, []) = Some (ex, (w', tr))"
    and cr: "CcreateVolume sz nm ty tags snap res \<in> set tr"
  shows "(snap \<noteq> None \<longrightarrow> \<not> list_ex is_makeFileSystem tr)
       \<and> (snap = None \<longrightarrow>
            (\<forall>v. res = (Some v, None) \<and> CwaitUntilVolumeAvailable v None \<in> set tr
                  \<and> CattachVolume v (attachAs cfg) (deleteOnTermination cfg) None \<in> set tr \<longrightarrow>
                  (\<exists>e. CmakeFileSystem (''/dev/'' @ attachAs cfg) (mkfsInodeRatio cfg) v e \<in> set tr))
          \<and> (list_ex is_makeFileSystem tr \<longrightarrow>
                (\<exists>v. res = (Some v, None) \<and> CwaitUntilVolumeAvailable v None \<in> set tr
                  \<and> CattachVolume v (attachAs cfg) (deleteOnTermination cfg) None \<in> set tr)))"
  using run
proof (cases rule: runAsgEbs_logged_cases)
  case checks
  with cr show ?thesis by (simp add: is_check_simps2)
next
  case (acquire_fatal pre wa wb x)
  from acquire_logs [OF acquire_fatal(2)] obtain lt where "tr = pre @ lt" "list_all acquire_call lt"
    by blast
  with cr acquire_fatal(1) show ?thesis
    by (simp add: is_check_simps2 acquire_call_simps2)
next
  case (reused pre wa wb la vid sid)
  from acquire_logs [OF reused(2)] obtain lt where lt: "la = pre @ lt" "list_all acquire_call lt"
    by blast
  from reused(3) have "CcreateVolume sz nm ty tags snap res \<notin> set tr"
    by (cases rule: finish_logged_cases)
       (simp_all add: lt is_check_simps2 [OF reused(1)] acquire_call_simps2 [OF lt(2)])
  with cr show ?thesis by simp
next
  case (create_fatal pre wa wb la sid wc x)
  from acquire_logs [OF create_fatal(2)] obtain lt where
    lt: "la = pre @ lt" "list_all acquire_call lt" "\<not> list_ex attach_ok lt"
    by blast
  note no = is_check_simps2 [OF create_fatal(1)] acquire_call_simps2 [OF lt(2)] attach_ok_mem [OF lt(3)]
  from create_fatal(3) show ?thesis
  proof (cases rule: create_logged_cases)
    case (create_failed rs y)
    with cr lt(1) show ?thesis by (auto simp: no)
  next
    case (wait_failed v e y)
    with cr lt(1) show ?thesis by (auto simp: no)
  next
    case (attach_failed v e y)
    with cr lt(1) show ?thesis by (auto simp: no)
  next
    case (attached v)
    then show ?thesis by simp
  qed
next
  case (created pre wa wb la sid wc lc v cfs)
  from acquire_logs [OF created(2)] obtain lt where
    lt: "la = pre @ lt" "list_all acquire_call lt" "\<not> list_ex attach_ok lt"
    by blast
  note no = is_check_simps2 [OF created(1)] acquire_call_simps2 [OF lt(2)] attach_ok_mem [OF lt(3)]
  from created(3) obtain x where
    c: "v = Some x" "cfs = (sid = None)"
      "lc = la @ [CcreateVolume (createSize cfg) (createName cfg) (createVolumeType cfg) (createTags cfg) sid
                    (Some x, None),
                  CwaitUntilVolumeAvailable x None,
                  CattachVolume x (attachAs cfg) (deleteOnTermination cfg) None]"
    by (cases rule: create_logged_cases) simp_all
  let ?ct = "[CcreateVolume (createSize cfg) (createName cfg) (createVolumeType cfg) (createTags cfg) sid
                    (Some x, None),
              CwaitUntilVolumeAvailable x None,
              CattachVolume x (attachAs cfg) (deleteOnTermination cfg) None]"
  have snap: "snap = sid" "res = (Some x, None)" if "tr = pre @ lt @ ?ct @ ft"
    "\<forall>c \<in> set ft. \<not> is_createVolume c" for ft
    using cr that by (auto simp: no)
  from created(4) show ?thesis
  proof (cases rule: finish_logged_cases)
    case nil
    with c show ?thesis by simp
  next
    case (format_failed y e)
    with c have sid: "sid = None" and y: "y = x" by simp_all
    let ?m = "CmakeFileSystem (''/dev/'' @ attachAs cfg) (mkfsInodeRatio cfg) x (Some e)"
    have tr: "tr = pre @ lt @ ?ct @ [?m]"
      using format_failed(3) c(3) lt(1) y by simp
    from snap [OF tr] sid have "snap = None" "res = (Some x, None)" by simp_all
    moreover have "?m \<in> set tr" "CwaitUntilVolumeAvailable x None \<in> set tr"
      "CattachVolume x (attachAs cfg) (deleteOnTermination cfg) None \<in> set tr"
      by (simp_all add: tr)
    ultimately show ?thesis by blast
  next
    case (formatted y m)
    with c have sid: "sid = None" and y: "y = x" by simp_all
    let ?m = "CmakeFileSystem (''/dev/'' @ attachAs cfg) (mkfsInodeRatio cfg) x None"
    have tr: "tr = pre @ lt @ ?ct @ [?m, CmountVolume (''/dev/'' @ attachAs cfg) (mountPoint cfg) m]"
      using formatted(3) c(3) lt(1) y by simp
    from snap [OF tr] sid have "snap = None" "res = (Some x, None)" by simp_all
    moreover have "?m \<in> set tr" "CwaitUntilVolumeAvailable x None \<in> set tr"
      "CattachVolume x (attachAs cfg) (deleteOnTermination cfg) None \<in> set tr"
      by (simp_all add: tr)
    ultimately show ?thesis by blast
  next
    case (reused m)
    with c have sid: "sid \<noteq> None" by simp
    have tr: "tr = pre @ lt @ ?ct @ [CmountVolume (''/dev/'' @ attachAs cfg) (mountPoint cfg) m]"
      using reused(2) c(3) lt(1) by simp
    from snap [OF tr] sid have "snap \<noteq> None" by simp
    moreover have "\<not> list_ex is_makeFileSystem tr"
      by (simp add: tr no)
    ultimately show ?thesis by auto
  qed
qed

lemma createVolume_spy_failed:
  assumes "CreateVolume svc \<lparr>cv_AvailabilityZone = AvailabilityZone a, cv_Size = sz,
                             cv_VolumeType = ty, cv_SnapshotId = snap\<rparr> w = (Inl e, w1)"
  shows "createVolume (spy svc) a sz nm ty tags snap (w, l) =
           ((None, Some e),
            (w1, l @ [ECreateVolume \<lparr>cv_AvailabilityZone = AvailabilityZone a, cv_Size = sz,
                                      cv_VolumeType = ty, cv_SnapshotId = snap\<rparr> (Inl e)]))"
  using assms by (simp add: createVolume_def)

lemma createVolume_spy_created:
  assumes "CreateVolume svc \<lparr>cv_AvailabilityZone = AvailabilityZone a, cv_Size = sz,
                             cv_VolumeType = ty, cv_SnapshotId = snap\<rparr> w = (Inr vol, w1)"
    and "CreateTags svc
           \<lparr>Resources = [VolumeId vol],
            Tags = [\<lparr>Key = ''Name'', Value = nm\<rparr>,
                    \<lparr>Key = ''filesystem'', Value = (if snap = None then ''false'' else ''true'')\<rparr>]
                   @ map (\<lambda>(k, v). \<lparr>Key = k, Value = v\<rparr>) tags\<rparr> w1 = (r, w2)"
  shows "createVolume (spy svc) a sz nm ty tags snap (w, l) =
           ((VolumeId vol, r),
            (w2, l @ [ECreateVolume \<lparr>cv_AvailabilityZone = AvailabilityZone a, cv_Size = sz,
                                      cv_VolumeType = ty, cv_SnapshotId = snap\<rparr> (Inr vol),
                      ECreateTags
                        \<lparr>Resources = [VolumeId vol],
                         Tags = [\<lparr>Key = ''Name'', Value = nm\<rparr>,
                                 \<lparr>Key = ''filesystem'',
                                  Value = (if snap = None then ''false'' else ''true'')\<rparr>]
                                @ map (\<lambda>(k, v). \<lparr>Key = k, Value = v\<rparr>) tags\<rparr> r]))"
proof (cases snap)
  case None
  with assms show ?thesis by (cases r) (simp_all add: createVolume_def)
next
  case (Some sid)
  with assms show ?thesis by (cases r) (simp_all add: createVolume_def)
qed

lemma makeFileSystem_spy_failed:
  assumes "CombinedOutput svc ''/usr/sbin/mkfs.ext4'' [''-i'', Sprintf_d ratio, device] w
             = ((out, Some e), w1)"
  shows "makeFileSystem (spy svc) a device ratio vid (w, l) =
           (Some e, (w1, l @ [ECombinedOutput ''/usr/sbin/mkfs.ext4'' [''-i'', Sprintf_d ratio, device]
                                (out, Some e)]))"
  using assms by (simp add: makeFileSystem_def run_def)

lemma makeFileSystem_spy_formatted:
  assumes "CombinedOutput svc ''/usr/sbin/mkfs.ext4'' [''-i'', Sprintf_d ratio, device] w
             = ((out, None), w1)"
    and "CreateTags svc \<lparr>Resources = [Some vid],
                          Tags = [\<lparr>Key = ''filesystem'', Value = ''true''\<rparr>]\<rparr> w1 = (r, w2)"
  shows "makeFileSystem (spy svc) a device ratio vid (w, l) =
           (r, (w2, l @ [ECombinedOutput ''/usr/sbin/mkfs.ext4'' [''-i'', Sprintf_d ratio, device]
                           (out, None),
                         ECreateTags \<lparr>Resources = [Some vid],
                                      Tags = [\<lparr>Key = ''filesystem'', Value = ''true''\<rparr>]\<rparr> r]))"
  using assms by (cases r) (simp_all add: makeFileSystem_def run_def)

lemma createVolume_spy_log:
  "snd (snd (createVolume (spy svc) a sz nm ty tags snap (w, []))) =
     (case CreateVolume svc \<lparr>cv_AvailabilityZone = AvailabilityZone a, cv_Size = sz,
                              cv_VolumeType = ty, cv_SnapshotId = snap\<rparr> w of
        (Inl e, w1) \<Rightarrow>
          [ECreateVolume \<lparr>cv_AvailabilityZone = AvailabilityZone a, cv_Size = sz,
                           cv_VolumeType = ty, cv_SnapshotId = snap\<rparr> (Inl e)]
      | (Inr vol, w1) \<Rightarrow>
          [ECreateVolume \<lparr>cv_AvailabilityZone = AvailabilityZone a, cv_Size = sz,
                           cv_VolumeType = ty, cv_SnapshotId = snap\<rparr> (Inr vol),
           ECreateTags
             \<lparr>Resources = [VolumeId vol],
              Tags = [\<lparr>Key = ''Name'', Value = nm\<rparr>,
                      \<lparr>Key = ''filesystem'', Value = (if snap = None then ''false'' else ''true'')\<rparr>]
                     @ map (\<lambda>(k, v). \<lparr>Key = k, Value = v\<rparr>) tags\<rparr>
             (fst (CreateTags svc
                \<lparr>Resources = [VolumeId vol],
                 Tags = [\<lparr>Key = ''Name'', Value = nm\<rparr>,
                         \<lparr>Key = ''filesystem'', Value = (if snap = None then ''false'' else ''true'')\<rparr>]
                        @ map (\<lambda>(k, v). \<lparr>Key = k, Value = v\<rparr>) tags\<rparr> w1))])"
proof (cases "CreateVolume svc \<lparr>cv_AvailabilityZone = AvailabilityZone a, cv_Size = sz,
                            cv_VolumeType = ty, cv_SnapshotId = snap\<rparr> w")
  case (Pair r w1)
  show ?thesis
  proof (cases r)
    case (Inl e)
    with Pair show ?thesis by (simp add: createVolume_spy_failed)
  next
    case (Inr vol)
    with Pair show ?thesis
      by (simp add: createVolume_spy_created [OF _ surjective_pairing])
  qed
qed

lemma makeFileSystem_spy_log:
  "makeFileSystem (spy svc) a device ratio vid (w, []) =
     (case CombinedOutput svc ''/usr/sbin/mkfs.ext4'' [''-i'', Sprintf_d ratio, device] w of
        ((out, Some e), w1) \<Rightarrow>
          (Some e, (w1, [ECombinedOutput ''/usr/sbin/mkfs.ext4'' [''-i'', Sprintf_d ratio, device]
                           (out, Some e)]))
      | ((out, None), w1) \<Rightarrow>
          (fst (CreateTags svc \<lparr>Resources = [Some vid],
                                 Tags = [\<lparr>Key = ''filesystem'', Value = ''true''\<rparr>]\<rparr> w1),
           (snd (CreateTags svc \<lparr>Resources = [Some vid],
                                  Tags = [\<lparr>Key = ''filesystem'', Value = ''true''\<rparr>]\<rparr> w1),
            [ECombinedOutput ''/usr/sbin/mkfs.ext4'' [''-i'', Sprintf_d ratio, device] (out, None),
             ECreateTags \<lparr>Resources = [Some vid],
                          Tags = [\<lparr>Key = ''filesystem'', Value = ''true''\<rparr>]\<rparr>
               (fst (CreateTags svc \<lparr>Resources = [Some vid],
                                      Tags = [\<lparr>Key = ''filesystem'', Value = ''true''\<rparr>]\<rparr> w1))])))"
proof (cases "CombinedOutput svc ''/usr/sbin/mkfs.ext4'' [''-i'', Sprintf_d ratio, device] w")
  case (Pair oe w1)
  obtain out e where oe: "oe = (out, e)" by (cases oe)
  show ?thesis
  proof (cases e)
    case (Some err)
    with Pair oe show ?thesis by (simp add: makeFileSystem_spy_failed)
  next
    case None
    with Pair oe show ?thesis
      by (simp add: makeFileSystem_spy_formatted [OF _ surjective_pairing])
  qed
qed

text \<open>
  C3, as the code has it. First, \<open>createVolume\<close> sends the create-volume request and,
  when that succeeds, one tagging request for the new volume, in which the tag
  \<open>filesystem\<close> is \<open>false\<close> when no snapshot id was given and \<open>true\<close> when one was.
  Second, \<open>makeFileSystem\<close> starts the formatter and sends the tag \<open>filesystem = true\<close>
  only when the formatter has succeeded. Third, in the log of any run that ends and in which
  \<open>createVolume\<close> was called: with a snapshot id, \<open>makeFileSystem\<close> is never called;
  with no snapshot id, \<open>makeFileSystem\<close> is called, on the new volume, when
  \<open>createVolume\<close>, \<open>waitUntilVolumeAvailable\<close> and \<open>attachVolume\<close> have all
  succeeded, and only then.
\<close>

theorem filesystem_tag_and_format:
  "snd (snd (createVolume (spy svc) a sz nm ty tags snap (w, []))) =
     (case CreateVolume svc \<lparr>cv_AvailabilityZone = AvailabilityZone a, cv_Size = sz,
                              cv_VolumeType = ty, cv_SnapshotId = snap\<rparr> w of
        (Inl e, w1) \<Rightarrow>
          [ECreateVolume \<lparr>cv_AvailabilityZone = AvailabilityZone a, cv_Size = sz,
                           cv_VolumeType = ty, cv_SnapshotId = snap\<rparr> (Inl e)]
      | (Inr vol, w1) \<Rightarrow>
          [ECreateVolume \<lparr>cv_AvailabilityZone = AvailabilityZone a, cv_Size = sz,
                           cv_VolumeType = ty, cv_SnapshotId = snap\<rparr> (Inr vol),
           ECreateTags
             \<lparr>Resources = [VolumeId vol],
              Tags = [\<lparr>Key = ''Name'', Value = nm\<rparr>,
                      \<lparr>Key = ''filesystem'', Value = (if snap = None then ''false'' else ''true'')\<rparr>]
                     @ map (\<lambda>(k, v). \<lparr>Key = k, Value = v\<rparr>) tags\<rparr>
             (fst (CreateTags svc
                \<lparr>Resources = [VolumeId vol],
                 Tags = [\<lparr>Key = ''Name'', Value = nm\<rparr>,
                         \<lparr>Key = ''filesystem'', Value = (if snap = None then ''false'' else ''true'')\<rparr>]
                        @ map (\<lambda>(k, v). \<lparr>Key = k, Value = v\<rparr>) tags\<rparr> w1))])
   \<and> makeFileSystem (spy svc) a device ratio vid (w, []) =
     (case CombinedOutput svc ''/usr/sbin/mkfs.ext4'' [''-i'', Sprintf_d ratio, device] w of
        ((out, Some e), w1) \<Rightarrow>
          (Some e, (w1, [ECombinedOutput ''/usr/sbin/mkfs.ext4'' [''-i'', Sprintf_d ratio, device]
                           (out, Some e)]))
      | ((out, None), w1) \<Rightarrow>
          (fst (CreateTags svc \<lparr>Resources = [Some vid],
                                 Tags = [\<lparr>Key = ''filesystem'', Value = ''true''\<rparr>]\<rparr> w1),
           (snd (CreateTags svc \<lparr>Resources = [Some vid],
                                  Tags = [\<lparr>Key = ''filesystem'', Value = ''true''\<rparr>]\<rparr> w1),
            [ECombinedOutput ''/usr/sbin/mkfs.ext4'' [''-i'', Sprintf_d ratio, device] (out, None),
             ECreateTags \<lparr>Resources = [Some vid],
                          Tags = [\<lparr>Key = ''filesystem'', Value = ''true''\<rparr>]\<rparr>
               (fst (CreateTags svc \<lparr>Resources = [Some vid],
                                      Tags = [\<lparr>Key = ''filesystem'', Value = ''true''\<rparr>]\<rparr> w1))])))
   \<and> (\<forall>ex w' tr csz cnm cty ctags csnap res.
         runAsgEbs (logged i) cfg (wi, []) = Some (ex, (w', tr))
         \<and> CcreateVolume csz cnm cty ctags csnap res \<in> set tr \<longrightarrow>
         (csnap \<noteq> None \<longrightarrow> \<not> list_ex is_makeFileSystem tr)
       \<and> (csnap = None \<longrightarrow>
            (\<forall>v. res = (Some v, None) \<and> CwaitUntilVolumeAvailable v None \<in> set tr
                  \<and> CattachVolume v (attachAs cfg) (deleteOnTermination cfg) None \<in> set tr \<longrightarrow>
                  (\<exists>e. CmakeFileSystem (''/dev/'' @ attachAs cfg) (mkfsInodeRatio cfg) v e \<in> set tr))
          \<and> (list_ex is_makeFileSystem tr \<longrightarrow>
                (\<exists>v. res = (Some v, None) \<and> CwaitUntilVolumeAvailable v None \<in> set tr
                  \<and> CattachVolume v (attachAs cfg) (deleteOnTermination cfg) None \<in> set tr))))"
proof -
  have "(\<forall>ex w' tr csz cnm cty ctags csnap res.
         runAsgEbs (logged i) cfg (wi, []) = Some (ex, (w', tr))
         \<and> CcreateVolume csz cnm cty ctags csnap res \<in> set tr \<longrightarrow>
         (csnap \<noteq> None \<longrightarrow> \<not> list_ex is_makeFileSystem tr)
       \<and> (csnap = None \<longrightarrow>
            (\<forall>v. res = (Some v, None) \<and> CwaitUntilVolumeAvailable v None \<in> set tr
                  \<and> CattachVolume v (attachAs cfg) (deleteOnTermination cfg) None \<in> set tr \<longrightarrow>
                  (\<exists>e. CmakeFileSystem (''/dev/'' @ attachAs cfg) (mkfsInodeRatio cfg) v e \<in> set tr))
          \<and> (list_ex is_makeFileSystem tr \<longrightarrow>
                (\<exists>v. res = (Some v, None) \<and> CwaitUntilVolumeAvailable v None \<in> set tr
                  \<and> CattachVolume v (attachAs cfg) (deleteOnTermination cfg) None \<in> set tr))))"
    using format_follows_creation [of i cfg wi] by blast
  then show ?thesis
    by (intro conjI createVolume_spy_log makeFileSystem_spy_log)
qed

lemma idle_run:
  "runAsgEbs (logged (awsAsgEbsI idle aws0)) cfg0 (0, []) =
     Some (Fatal ''Failed to attach volume'', (80000000000,
       [CcheckDevice ''/dev/xvdb'' None, CcheckMountPoint ''/mnt/data'' None,
        CfindVolume ''env'' ''staging'' (None, None),
        CcreateVolume 20 ''staging-data'' ''gp2'' [] None (Some ''vol-new'', None),
        CwaitUntilVolumeAvailable ''vol-new'' None,
        CattachVolume ''vol-new'' ''xvdb'' False (Some (errorString ''File /dev/xvdb not found''))]))"
  proof -
  have ops: "Stat idle f w = (Some (ErrNotExist f), w + 20 * Second)"
    "ReadFile idle f w = (([], None), w)" "DescribeVolumes idle dv w = (Inr [], w)"
    "CreateVolume idle cv w = (Inr \<lparr>VolumeId = Some ''vol-new''\<rparr>, w)"
    "CreateTags idle ct w = (None, w)" "WaitUntilVolumeAvailable idle dv w = (None, w)"
    for f w dv cv ct
    by (simp_all add: idle_def)
  show ?thesis
    by (simp add: runAsgEbs_def awsAsgEbsI_def acquire_def create_def cfg0_def aws0_def
        reuseLoop.simps checkDevice_def checkMountPoint_def slurpFile_def findVolume_def
        createVolume_def waitUntilVolumeAvailable_def idle_attachVolume IsNotExist_def ops
        Second_def)
qed

lemma stub_run:
  "runAsgEbs (logged (stub None None None)) cfg0 ((), []) =
     Some (Returned, ((),
       [CcheckDevice ''/dev/xvdb'' None, CcheckMountPoint ''/mnt/data'' None,
        CfindVolume ''env'' ''staging'' (None, None),
        CcreateVolume 20 ''staging-data'' ''gp2'' [] None (Some ''vol-new'', None),
        CwaitUntilVolumeAvailable ''vol-new'' None,
        CattachVolume ''vol-new'' ''xvdb'' False None,
        CmakeFileSystem ''/dev/xvdb'' 16384 ''vol-new'' None,
        CmountVolume ''/dev/xvdb'' ''/mnt/data'' None]))"
  by code_simp

lemma stub_snapshot_run:
  "runAsgEbs (logged (stub None None (Some ''snap-b''))) (cfg0\<lparr>snapshotName := ''nightly-backup''\<rparr>) ((), []) =
     Some (Returned, ((),
       [CcheckDevice ''/dev/xvdb'' None, CcheckMountPoint ''/mnt/data'' None,
        CfindSnapshot ''Name'' ''nightly-backup'' (Some ''snap-b'', None),
        CcreateVolume 20 ''staging-data'' ''gp2'' [] (Some ''snap-b'') (Some ''vol-new'', None),
        CwaitUntilVolumeAvailable ''vol-new'' None,
        CattachVolume ''vol-new'' ''xvdb'' False None,
        CmountVolume ''/dev/xvdb'' ''/mnt/data'' None]))"
  by code_simp

theorem filesystem_tag_and_format_witness:
  "snd (snd (createVolume (spy idle) aws0 20 ''staging-data'' ''gp2'' [] None (0, []))) =
     [ECreateVolume \<lparr>cv_AvailabilityZone = ''us-east-1a'', cv_Size = 20, cv_VolumeType = ''gp2'',
                     cv_SnapshotId = None\<rparr> (Inr \<lparr>VolumeId = Some ''vol-new''\<rparr>),
      ECreateTags \<lparr>Resources = [Some ''vol-new''],
                   Tags = [\<lparr>Key = ''Name'', Value = ''staging-data''\<rparr>,
                           \<lparr>Key = ''filesystem'', Value = ''false''\<rparr>]\<rparr> None]
   \<and> snd (snd (createVolume (spy idle) aws0 20 ''staging-data'' ''gp2'' [] (Some ''snap-b'') (0, []))) =
     [ECreateVolume \<lparr>cv_AvailabilityZone = ''us-east-1a'', cv_Size = 20, cv_VolumeType = ''gp2'',
                     cv_SnapshotId = Some ''snap-b''\<rparr> (Inr \<lparr>VolumeId = Some ''vol-new''\<rparr>),
      ECreateTags \<lparr>Resources = [Some ''vol-new''],
                   Tags = [\<lparr>Key = ''Name'', Value = ''staging-data''\<rparr>,
                           \<lparr>Key = ''filesystem'', Value = ''true''\<rparr>]\<rparr> None]
   \<and> CcreateVolume 20 ''staging-data'' ''gp2'' [] None (Some ''vol-new'', None)
       \<in> set (calls (runAsgEbs (logged (stub None None None)) cfg0 ((), [])))
   \<and> (\<exists>e. CmakeFileSystem ''/dev/xvdb'' 16384 ''vol-new'' e
          \<in> set (calls (runAsgEbs (logged (stub None None None)) cfg0 ((), []))))
   \<and> CcreateVolume 20 ''staging-data'' ''gp2'' [] (Some ''snap-b'') (Some ''vol-new'', None)
       \<in> set (calls (runAsgEbs (logged (stub None None (Some ''snap-b'')))
                        (cfg0\<lparr>snapshotName := ''nightly-backup''\<rparr>) ((), [])))
   \<and> \<not> list_ex is_makeFileSystem
         (calls (runAsgEbs (logged (stub None None (Some ''snap-b'')))
                   (cfg0\<lparr>snapshotName := ''nightly-backup''\<rparr>) ((), [])))"
proof -
  let ?tr1 = "[CcheckDevice ''/dev/xvdb'' None, CcheckMountPoint ''/mnt/data'' None,
        CfindVolume ''env'' ''staging'' (None, None),
        CcreateVolume 20 ''staging-data'' ''gp2'' [] None (Some ''vol-new'', None),
        CwaitUntilVolumeAvailable ''vol-new'' None,
        CattachVolume ''vol-new'' ''xvdb'' False None,
        CmakeFileSystem ''/dev/xvdb'' 16384 ''vol-new'' None,
        CmountVolume ''/dev/xvdb'' ''/mnt/data'' None]"
  let ?tr2 = "[CcheckDevice ''/dev/xvdb'' None, CcheckMountPoint ''/mnt/data'' None,
        CfindSnapshot ''Name'' ''nightly-backup'' (Some ''snap-b'', None),
        CcreateVolume 20 ''staging-data'' ''gp2'' [] (Some ''snap-b'') (Some ''vol-new'', None),
        CwaitUntilVolumeAvailable ''vol-new'' None,
        CattachVolume ''vol-new'' ''xvdb'' False None,
        CmountVolume ''/dev/xvdb'' ''/mnt/data'' None]"
  note t1 = filesystem_tag_and_format [of idle aws0 20 "''staging-data''" "''gp2''" "[]" None 0
      "''/dev/xvdb''" 16384 "''vol-new''" "stub None None None" cfg0 "()"]
  note t2 = filesystem_tag_and_format [of idle aws0 20 "''staging-data''" "''gp2''" "[]" "Some ''snap-b''" 0
      "''/dev/xvdb''" 16384 "''vol-new''" "stub None None (Some ''snap-b'')"
      "cfg0\<lparr>snapshotName := ''nightly-backup''\<rparr>" "()"]
  have c1: "calls (runAsgEbs (logged (stub None None None)) cfg0 ((), [])) = ?tr1"
    by (simp add: stub_run calls_def)
  have c2: "calls (runAsgEbs (logged (stub None None (Some ''snap-b'')))
                     (cfg0\<lparr>snapshotName := ''nightly-backup''\<rparr>) ((), [])) = ?tr2"
    by (simp add: stub_snapshot_run calls_def)
  have a1: "snd (snd (createVolume (spy idle) aws0 20 ''staging-data'' ''gp2'' [] None (0, []))) =
     [ECreateVolume \<lparr>cv_AvailabilityZone = ''us-east-1a'', cv_Size = 20, cv_VolumeType = ''gp2'',
                     cv_SnapshotId = None\<rparr> (Inr \<lparr>VolumeId = Some ''vol-new''\<rparr>),
      ECreateTags \<lparr>Resources = [Some ''vol-new''],
                   Tags = [\<lparr>Key = ''Name'', Value = ''staging-data''\<rparr>,
                           \<lparr>Key = ''filesystem'', Value = ''false''\<rparr>]\<rparr> None]"
    using t1 [THEN conjunct1] by (simp add: idle_def aws0_def)
  have a2: "snd (snd (createVolume (spy idle) aws0 20 ''staging-data'' ''gp2'' [] (Some ''snap-b'') (0, []))) =
     [ECreateVolume \<lparr>cv_AvailabilityZone = ''us-east-1a'', cv_Size = 20, cv_VolumeType = ''gp2'',
                     cv_SnapshotId = Some ''snap-b''\<rparr> (Inr \<lparr>VolumeId = Some ''vol-new''\<rparr>),
      ECreateTags \<lparr>Resources = [Some ''vol-new''],
                   Tags = [\<lparr>Key = ''Name'', Value = ''staging-data''\<rparr>,
                           \<lparr>Key = ''filesystem'', Value = ''true''\<rparr>]\<rparr> None]"
    using t2 [THEN conjunct1] by (simp add: idle_def aws0_def)
  have m1: "CcreateVolume 20 ''staging-data'' ''gp2'' [] None (Some ''vol-new'', None) \<in> set ?tr1"
    by simp
  have m2: "CcreateVolume 20 ''staging-data'' ''gp2'' [] (Some ''snap-b'') (Some ''vol-new'', None)
              \<in> set ?tr2"
    by simp
  have w1: "CwaitUntilVolumeAvailable ''vol-new'' None \<in> set ?tr1"
    "CattachVolume ''vol-new'' (attachAs cfg0) (deleteOnTermination cfg0) None \<in> set ?tr1"
    by (simp_all add: cfg0_def)
  from t1 [THEN conjunct2, THEN conjunct2, rule_format, OF conjI [OF stub_run m1],
      THEN conjunct2, rule_format, OF refl, THEN conjunct1, rule_format, of "''vol-new''"] w1
  have b1: "\<exists>e. CmakeFileSystem ''/dev/xvdb'' 16384 ''vol-new'' e \<in> set ?tr1"
    by (simp add: cfg0_def)
  from t2 [THEN conjunct2, THEN conjunct2, rule_format, OF conjI [OF stub_snapshot_run m2],
      THEN conjunct1]
  have b2: "\<not> list_ex is_makeFileSystem ?tr2"
    by simp
  from a1 a2 m1 m2 b1 b2 show ?thesis
    unfolding c1 c2 by blast
qed

text \<open>
  C3, as the claim has it, fails: on \<open>idle\<close> the run creates a volume with no snapshot
  id, the device node never appears, the attach fails, and the process exits before the
  format step. \<open>makeFileSystem\<close> is not called.
\<close>

theorem format_not_reached_counterexample:
  "runAsgEbs (logged (awsAsgEbsI idle aws0)) cfg0 (0, []) =
     Some (Fatal ''Failed to attach volume'', (80000000000,
       [CcheckDevice ''/dev/xvdb'' None, CcheckMountPoint ''/mnt/data'' None,
        CfindVolume ''env'' ''staging'' (None, None),
        CcreateVolume 20 ''staging-data'' ''gp2'' [] None (Some ''vol-new'', None),
        CwaitUntilVolumeAvailable ''vol-new'' None,
        CattachVolume ''vol-new'' ''xvdb'' False (Some (errorString ''File /dev/xvdb not found''))]))
   \<and> \<not> list_ex is_makeFileSystem (calls (runAsgEbs (logged (awsAsgEbsI idle aws0)) cfg0 (0, [])))"
  by (simp add: idle_run calls_def)

lemma reuseLoop_no_match:
  "reuseLoop (logged a) cfg i vol (w, l) = Some (Inr None, (w', l')) \<Longrightarrow> i \<le> 11 \<Longrightarrow>
     i \<le> 10 \<or> vol \<noteq> None \<Longrightarrow>
     \<exists>lt k v. l' = l @ lt \<and> CfindVolume k v (None, None) \<in> set lt"
proof (induction "11 - i" arbitrary: i vol w l)
  case 0
  then show ?case
    by (subst (asm) reuseLoop_logged_step) auto
next
  case (Suc m)
  then have i: "i \<le> 10" "m = 11 - (i + 1)" "i + 1 \<le> 11" by simp_all
  note eq = Suc.prems(1) [unfolded reuseLoop_logged_step [of a cfg i vol w l]]
  from eq i(1) obtain vid err w1 where
    fv: "findVolumeI a (tagKey cfg) (tagValue cfg) w = Some ((vid, err), w1)"
    by (auto split: option.splits)
  show ?case
  proof (cases "err \<noteq> None \<or> vid = None")
    case True
    with eq fv i(1) have "l' = l @ [CfindVolume (tagKey cfg) (tagValue cfg) (vid, err)]"
      "vid = None" "err = None"
      by (auto split: if_splits)
    then show ?thesis by auto
  next
    case False
    then obtain x where x: "vid = Some x" "err = None" by auto
    from eq fv i(1) x obtain aerr w2 where
      av: "attachVolumeI a x (attachAs cfg) (deleteOnTermination cfg) w1 = Some (aerr, w2)"
      by (auto split: option.splits)
    let ?l2 = "l @ [CfindVolume (tagKey cfg) (tagValue cfg) (vid, err),
                    CattachVolume x (attachAs cfg) (deleteOnTermination cfg) aerr]"
    from eq fv i(1) x av
    have rec: "aerr \<noteq> None" "reuseLoop (logged a) cfg (i + 1) vid (w2, ?l2) = Some (Inr None, (w', l'))"
      by (auto split: if_splits)
    from Suc.hyps(1) [OF i(2) rec(2) i(3)] x obtain lt k v where
      "l' = ?l2 @ lt" "CfindVolume k v (None, None) \<in> set lt" by auto
    then show ?thesis by auto
  qed
qed

lemma acquire_no_match:
  assumes "acquire (logged a) cfg (w, l) = Some (Inr (None, sid), (w', l'))" and "snapshotName cfg = []"
  shows "\<exists>lt k v. l' = l @ lt \<and> CfindVolume k v (None, None) \<in> set lt"
proof -
  from assms have "reuseLoop (logged a) cfg 1 None (w, l) = Some (Inr None, (w', l'))"
    by (auto simp: acquire_def split: option.splits sum.splits)
  from reuseLoop_no_match [OF this] show ?thesis by simp
qed

text \<open>
  In a run with no snapshot name, \<open>createVolume\<close> is called only after some
  \<open>findVolume\<close> call has returned no volume and no error.
\<close>

lemma creation_needs_no_match:
  assumes "snapshotName cfg = []"
    and run: "runAsgEbs (logged a) cfg (w, []) = Some (ex, (w', tr))"
    and cr: "CcreateVolume sz nm ty tags snap res \<in> set tr"
  shows "\<exists>k v. CfindVolume k v (None, None) \<in> set tr"
  using run
proof (cases rule: runAsgEbs_logged_cases)
  case checks
  with cr show ?thesis by (simp add: is_check_simps2)
next
  case (acquire_fatal pre wa wb x)
  from acquire_logs [OF acquire_fatal(2)] obtain lt where "tr = pre @ lt" "list_all acquire_call lt"
    by blast
  with cr acquire_fatal(1) show ?thesis
    by (simp add: is_check_simps2 acquire_call_simps2)
next
  case (reused pre wa wb la vid sid)
  from acquire_logs [OF reused(2)] obtain lt where lt: "la = pre @ lt" "list_all acquire_call lt"
    by blast
  from reused(3) have "CcreateVolume sz nm ty tags snap res \<notin> set tr"
    by (cases rule: finish_logged_cases)
       (simp_all add: lt is_check_simps2 [OF reused(1)] acquire_call_simps2 [OF lt(2)])
  with cr show ?thesis by simp
next
  case (create_fatal pre wa wb la sid wc x)
  from acquire_no_match [OF create_fatal(2) assms(1)] obtain lt k v where
    lt: "la = pre @ lt" "CfindVolume k v (None, None) \<in> set lt" by blast
  from create_logs [OF create_fatal(3)] obtain ct where "tr = la @ ct" by blast
  with lt show ?thesis by auto
next
  case (created pre wa wb la sid wc lc v cfs)
  from acquire_no_match [OF created(2) assms(1)] obtain lt k v where
    lt: "la = pre @ lt" "CfindVolume k v (None, None) \<in> set lt" by blast
  from create_logs [OF created(3)] obtain ct where ct: "lc = la @ ct" by blast
  from finish_logs [OF created(4)] obtain ft where "tr = lc @ ft" by blast
  with lt ct show ?thesis by auto
qed

text \<open>
  C1 against the code. On \<open>contended\<close> each of the ten iterations finds \<open>vol-1\<close> and
  fails to attach it. After the loop \<open>volumeId\<close> still holds the volume found last, so
  the test \<open>volumeId == nil\<close> of line 421 fails: \<open>createVolume\<close> is never called, and
  the run goes on to mount a device that was never attached. By \<open>creation_needs_no_match\<close>
  this is so in every run in which all ten \<open>findVolume\<close> calls find a volume.
\<close>

theorem ten_failed_attaches_no_creation:
  "runAsgEbs (logged (awsAsgEbsI contended aws0)) cfg0 (0, []) =
     Some (Fatal ''Failed to mount volume'', (20000000000,
       [CcheckDevice ''/dev/xvdb'' None, CcheckMountPoint ''/mnt/data'' None]
       @ concat (replicate 10
           [CfindVolume ''env'' ''staging'' (Some ''vol-1'', None),
            CattachVolume ''vol-1'' ''xvdb'' False
              (Some (AwsError ''VolumeInUse'' ''vol-1 is already attached''))])
       @ [CmountVolume ''/dev/xvdb'' ''/mnt/data'' (Some (OsError ''exit status 32''))]))
   \<and> \<not> list_ex is_createVolume (calls (runAsgEbs (logged (awsAsgEbsI contended aws0)) cfg0 (0, [])))"
proof -
  have ops: "Stat contended f w = (Some (ErrNotExist f), w + 20 * Second)"
    "ReadFile contended f w = (([], None), w)"
    "DescribeVolumes contended dv w = (Inr [\<lparr>VolumeId = Some ''vol-1''\<rparr>], w)"
    "AttachVolume contended av w = (Some (AwsError ''VolumeInUse'' ''vol-1 is already attached''), w)"
    "MkdirAll contended p m w = (None, w)"
    "CombinedOutput contended ''/bin/mount'' as w =
       ((''mount: special device does not exist'', Some (OsError ''exit status 32'')), w)"
    for f w dv av p m as
    by (simp_all add: contended_def idle_def)
  have run: "runAsgEbs (logged (awsAsgEbsI contended aws0)) cfg0 (0, []) =
     Some (Fatal ''Failed to mount volume'', (20000000000,
       [CcheckDevice ''/dev/xvdb'' None, CcheckMountPoint ''/mnt/data'' None]
       @ concat (replicate 10
           [CfindVolume ''env'' ''staging'' (Some ''vol-1'', None),
            CattachVolume ''vol-1'' ''xvdb'' False
              (Some (AwsError ''VolumeInUse'' ''vol-1 is already attached''))])
       @ [CmountVolume ''/dev/xvdb'' ''/mnt/data'' (Some (OsError ''exit status 32''))]))"
    by (simp add: runAsgEbs_def awsAsgEbsI_def acquire_def finish_def cfg0_def aws0_def
        reuseLoop.simps checkDevice_def checkMountPoint_def slurpFile_def findVolume_def
        attachVolume_def mountVolume_def run_def IsNotExist_def ops Second_def Let_def
        eval_nat_numeral)
  then show ?thesis
    by (simp add: calls_def eval_nat_numeral)
qed

lemma MetadataRegion_spy [simp]:
  "MetadataRegion (spy s) (w, l) =
     (fst (MetadataRegion s w), snd (MetadataRegion s w), l @ [EMetadataRegion (fst (MetadataRegion s w))])"
  by (simp add: spy_def observe_def split: prod.splits)

lemma GetMetadata_spy [simp]:
  "GetMetadata (spy s) p (w, l) =
     (fst (GetMetadata s p w), snd (GetMetadata s p w), l @ [EGetMetadata p (fst (GetMetadata s p w))])"
  by (simp add: spy_def observe_def split: prod.splits)

text \<open>
  \<open>runAsgEbs\<close> on the implementation \<open>AwsAsgEbs\<close>: when a precondition check fails, it
  ends the process and has called nothing but \<open>os.Stat\<close> and, for the second check, the
  reading of \<open>/proc/mounts\<close>.
\<close>

lemma runAsgEbs_precondition_failure:
  assumes "Stat svc (''/dev/'' @ attachAs cfg) w = (serr, w1)"
    and "ReadFile svc ''/proc/mounts'' w1 = ((contents, rerr), w2)"
    and "\<not> IsNotExist serr \<or> sublist (mountPoint cfg) contents"
  shows "runAsgEbs (awsAsgEbsI (spy svc) a) cfg (w, []) =
           (if \<not> IsNotExist serr
            then Some (Fatal ''Device already exists'', (w1, [EStat (''/dev/'' @ attachAs cfg) serr]))
            else Some (Fatal ''Already mounted'',
                   (w2, [EStat (''/dev/'' @ attachAs cfg) serr,
                         EReadFile ''/proc/mounts'' (contents, rerr)])))
       \<and> \<not> list_ex is_ec2 (calls (runAsgEbs (awsAsgEbsI (spy svc) a) cfg (w, [])))"
  using assms
  by (auto simp: runAsgEbs_def awsAsgEbsI_def checkDevice_def checkMountPoint_def slurpFile_def
      Contains_sublist calls_def Let_def)

lemma runAsgEbs_precondition_failure_from:
  assumes "Stat svc (''/dev/'' @ attachAs cfg) w = (serr, w1)"
    and "ReadFile svc ''/proc/mounts'' w1 = ((contents, rerr), w2)"
    and "\<not> IsNotExist serr \<or> sublist (mountPoint cfg) contents"
  shows "runAsgEbs (awsAsgEbsI (spy svc) a) cfg (w, l) =
           (if \<not> IsNotExist serr
            then Some (Fatal ''Device already exists'', (w1, l @ [EStat (''/dev/'' @ attachAs cfg) serr]))
            else Some (Fatal ''Already mounted'',
                   (w2, l @ [EStat (''/dev/'' @ attachAs cfg) serr,
                             EReadFile ''/proc/mounts'' (contents, rerr)])))"
  using assms
  by (auto simp: runAsgEbs_def awsAsgEbsI_def checkDevice_def checkMountPoint_def slurpFile_def
      Contains_sublist Let_def)

text \<open>
  C8, as the code has it. Let the three lookups of the instance metadata with which the
  process starts succeed. If then the \<open>os.Stat\<close> of the device path does not answer
  "does not exist" (in particular if the device is there), or the mount point occurs in
  \<open>/proc/mounts\<close>, the process exits with a fatal message. All it has called by then
  is the three metadata lookups, that \<open>os.Stat\<close> and, in the second case, the reading of
  \<open>/proc/mounts\<close>: no request to the EC2 API, mutating or not.
\<close>

theorem precondition_failure_no_ec2_request:
  assumes "MetadataRegion svc w = (Inr region, wr)"
    and "GetMetadata svc ''placement/availability-zone'' wr = (Inr az, wz)"
    and "GetMetadata svc ''instance-id'' wz = (Inr iid, wi)"
    and "Stat svc (''/dev/'' @ attachAs cfg) wi = (serr, w1)"
    and "ReadFile svc ''/proc/mounts'' w1 = ((contents, rerr), w2)"
    and "\<not> IsNotExist serr \<or> sublist (mountPoint cfg) contents"
  shows "main (spy svc) cfg (w, []) =
           (if \<not> IsNotExist serr
            then Some (Fatal ''Device already exists'',
                   (w1, [EMetadataRegion (Inr region),
                         EGetMetadata ''placement/availability-zone'' (Inr az),
                         EGetMetadata ''instance-id'' (Inr iid),
                         EStat (''/dev/'' @ attachAs cfg) serr]))
            else Some (Fatal ''Already mounted'',
                   (w2, [EMetadataRegion (Inr region),
                         EGetMetadata ''placement/availability-zone'' (Inr az),
                         EGetMetadata ''instance-id'' (Inr iid),
                         EStat (''/dev/'' @ attachAs cfg) serr,
                         EReadFile ''/proc/mounts'' (contents, rerr)])))
       \<and> \<not> list_ex is_ec2 (calls (main (spy svc) cfg (w, [])))"
proof -
  let ?l = "[EMetadataRegion (Inr region),
             EGetMetadata ''placement/availability-zone'' (Inr az),
             EGetMetadata ''instance-id'' (Inr iid)]"
  let ?a = "\<lparr>Region = region, AvailabilityZone = az, InstanceId = iid\<rparr>"
  have new: "NewAwsAsgEbs (spy svc) (maxRetries cfg) (w, []) = (Inr ?a, (wi, ?l))"
    using assms(1-3) by (simp add: NewAwsAsgEbs_def)
  then have "main (spy svc) cfg (w, []) = runAsgEbs (awsAsgEbsI (spy svc) ?a) cfg (wi, ?l)"
    by (simp add: main_def)
  with runAsgEbs_precondition_failure_from [OF assms(4-6), of ?a ?l]
  show ?thesis by (simp add: calls_def)
qed

theorem precondition_failure_no_ec2_request_witness:
  "main (spy device_present) cfg0 (0, []) =
     Some (Fatal ''Device already exists'', (1000000000,
       [EMetadataRegion (Inr ''us-east-1''),
        EGetMetadata ''placement/availability-zone'' (Inr ''us-east-1a''),
        EGetMetadata ''instance-id'' (Inr ''i-0abc''),
        EStat ''/dev/xvdb'' None]))
   \<and> \<not> list_ex is_ec2 (calls (main (spy device_present) cfg0 (0, [])))
   \<and> \<not> list_ex is_ec2 (calls (main (spy mounted_elsewhere) (cfg0\<lparr>mountPoint := ''/mnt/data2''\<rparr>) (0, [])))"
proof -
  have m: "MetadataRegion device_present 0 = (Inr ''us-east-1'', 0)"
    "GetMetadata device_present ''placement/availability-zone'' 0 = (Inr ''us-east-1a'', 0)"
    "GetMetadata device_present ''instance-id'' 0 = (Inr ''i-0abc'', 0)"
    by (simp_all add: device_present_def idle_def)
  have 1: "Stat device_present (''/dev/'' @ attachAs cfg0) 0 = (None, 1000000000)"
    by (simp add: device_present_def cfg0_def Second_def)
  have 2: "ReadFile device_present ''/proc/mounts'' 1000000000 = (([], None), 1000000000)"
    by (simp add: device_present_def idle_def)
  have 3: "\<not> IsNotExist None \<or> sublist (mountPoint cfg0) []"
    by (simp add: IsNotExist_def)
  let ?cfg = "cfg0\<lparr>mountPoint := ''/mnt/data2''\<rparr>"
  let ?c = "''/dev/xvdf /mnt/data2 ext4 rw,relatime 0 0'' @ [CHR 0x0A]"
  have n: "MetadataRegion mounted_elsewhere 0 = (Inr ''us-east-1'', 0)"
    "GetMetadata mounted_elsewhere ''placement/availability-zone'' 0 = (Inr ''us-east-1a'', 0)"
    "GetMetadata mounted_elsewhere ''instance-id'' 0 = (Inr ''i-0abc'', 0)"
    by (simp_all add: mounted_elsewhere_def idle_def)
  have 4: "Stat mounted_elsewhere (''/dev/'' @ attachAs ?cfg) 0
             = (Some (ErrNotExist ''/dev/xvdb''), 20000000000)"
    by (simp add: mounted_elsewhere_def idle_def cfg0_def Second_def)
  have 5: "ReadFile mounted_elsewhere ''/proc/mounts'' 20000000000 = ((?c, None), 20000000000)"
    by (simp add: mounted_elsewhere_def)
  have 6: "\<not> IsNotExist (Some (ErrNotExist ''/dev/xvdb'')) \<or> sublist (mountPoint ?cfg) ?c"
    by (simp add: cfg0_def sublist_code)
  from precondition_failure_no_ec2_request [OF m 1 2 3]
    precondition_failure_no_ec2_request [OF n 4 5 6]
  show ?thesis
    by (simp add: IsNotExist_def cfg0_def calls_def)
qed

text \<open>
  C8, as the claim has it, fails: with \<open>/mnt/data2\<close> already mounted the process exits at
  the second check, and by then it has made the three lookups of the instance metadata
  service, which the specification counts among the operations of the control plane.
\<close>

theorem precondition_failure_metadata_counterexample:
  "main (spy mounted_elsewhere) (cfg0\<lparr>mountPoint := ''/mnt/data2''\<rparr>) (0, []) =
     Some (Fatal ''Already mounted'', (20000000000,
       [EMetadataRegion (Inr ''us-east-1''),
        EGetMetadata ''placement/availability-zone'' (Inr ''us-east-1a''),
        EGetMetadata ''instance-id'' (Inr ''i-0abc''),
        EStat ''/dev/xvdb'' (Some (ErrNotExist ''/dev/xvdb'')),
        EReadFile ''/proc/mounts'' (''/dev/xvdf /mnt/data2 ext4 rw,relatime 0 0'' @ [CHR 0x0A], None)]))
   \<and> list_ex is_metadata
         (calls (main (spy mounted_elsewhere) (cfg0\<lparr>mountPoint := ''/mnt/data2''\<rparr>) (0, [])))"
proof -
  let ?cfg = "cfg0\<lparr>mountPoint := ''/mnt/data2''\<rparr>"
  let ?c = "''/dev/xvdf /mnt/data2 ext4 rw,relatime 0 0'' @ [CHR 0x0A]"
  let ?l = "[EMetadataRegion (Inr ''us-east-1''),
             EGetMetadata ''placement/availability-zone'' (Inr ''us-east-1a''),
             EGetMetadata ''instance-id'' (Inr ''i-0abc'')]"
  have "NewAwsAsgEbs (spy mounted_elsewhere) (maxRetries ?cfg) (0, []) = (Inr aws0, (0, ?l))"
    by (simp add: NewAwsAsgEbs_def mounted_elsewhere_def idle_def aws0_def)
  then have m: "main (spy mounted_elsewhere) ?cfg (0, [])
                  = runAsgEbs (awsAsgEbsI (spy mounted_elsewhere) aws0) ?cfg (0, ?l)"
    by (simp add: main_def)
  have 4: "Stat mounted_elsewhere (''/dev/'' @ attachAs ?cfg) 0
             = (Some (ErrNotExist ''/dev/xvdb''), 20000000000)"
    by (simp add: mounted_elsewhere_def idle_def cfg0_def Second_def)
  have 5: "ReadFile mounted_elsewhere ''/proc/mounts'' 20000000000 = ((?c, None), 20000000000)"
    by (simp add: mounted_elsewhere_def)
  have 6: "\<not> IsNotExist (Some (ErrNotExist ''/dev/xvdb'')) \<or> sublist (mountPoint ?cfg) ?c"
    by (simp add: cfg0_def sublist_code)
  from runAsgEbs_precondition_failure_from [OF 4 5 6, of aws0 ?l] m
  show ?thesis
    by (simp add: IsNotExist_def cfg0_def calls_def)
qed

lemma reuse_iters_no_match:
  "\<not> (\<exists>x. vid = Some x \<and> err = None) \<Longrightarrow>
     reuse_iters (CfindVolume k v (vid, err) # rest) =
       (case rest of CattachVolume vol' d t r # rest' \<Rightarrow> None
        | _ \<Rightarrow> map_option Suc (reuse_iters rest))"
  by (cases vid; cases err) simp_all

lemma reuse_iters_attaches: "reuse_iters lt = Some n \<Longrightarrow> length (filter is_attachVolume lt) \<le> n"
proof (induction lt arbitrary: n rule: length_induct)
  case (1 lt)
  show ?case
  proof (cases lt)
    case Nil
    then show ?thesis by simp
  next
    case (Cons c rest)
    show ?thesis
    proof (cases "is_findVolume c")
      case False
      with Cons "1.prems" show ?thesis by (cases c) simp_all
    next
      case True
      then obtain k v vid err where c: "c = CfindVolume k v (vid, err)"
        by (cases c) auto
      show ?thesis
      proof (cases "\<exists>x. vid = Some x \<and> err = None")
        case True
        then obtain x where x: "vid = Some x" "err = None" by blast
        with "1.prems" Cons c obtain d t r rest' m where
          r: "rest = CattachVolume x d t r # rest'" "reuse_iters rest' = Some m" "n = Suc m"
          by (auto split: list.splits call.splits if_splits)
        from "1.IH" [rule_format, of rest' m] r(1,2) Cons
        have "length (filter is_attachVolume rest') \<le> m" by simp
        with r Cons c show ?thesis by simp
      next
        case False
        from "1.prems" Cons c reuse_iters_no_match [OF False, of k v rest] obtain m where
          r: "reuse_iters rest = Some m" "n = Suc m"
          by (auto split: list.splits call.splits)
        from "1.IH" [rule_format, of rest m] r(1) Cons
        have "length (filter is_attachVolume rest) \<le> m" by simp
        with r Cons c show ?thesis by simp
      qed
    qed
  qed
qed

lemma finish_after:
  assumes "finish (logged a) cfg vid cfs (w, l) = Some (ex, (w', l'))"
  shows "\<exists>ft. l' = l @ ft \<and> list_all (\<lambda>c. \<not> loop_call c) ft"
  using assms by (cases rule: finish_logged_cases) simp_all

lemma after_loop_plain: "list_all (\<lambda>c. \<not> loop_call c) post \<Longrightarrow> after_loop post"
  by (induction post rule: after_loop.induct) simp_all

lemma find_loop_call: "is_findVolume c \<Longrightarrow> loop_call c"
  by (cases c) simp_all

lemma not_loop_call_find: "list_all (\<lambda>c. \<not> loop_call c) post \<Longrightarrow> \<not> list_ex is_findVolume post"
  by (auto simp: list_all_iff list_ex_iff dest: find_loop_call)

lemma after_loop_find: "after_loop post \<Longrightarrow> \<not> list_ex is_findVolume post"
  by (induction post rule: after_loop.induct)
     (auto dest: find_loop_call not_loop_call_find)

lemma loop_then_rest:
  assumes "list_all is_check pre" "la = pre @ lt" "reuse_iters lt = Some n" "n \<le> 10"
    and "tr = la @ post" "after_loop post"
  shows "\<exists>pre lt post n. tr = pre @ lt @ post \<and> list_all is_check pre
               \<and> reuse_iters lt = Some n \<and> n \<le> 10 \<and> length (filter is_attachVolume lt) \<le> n
               \<and> \<not> list_ex is_findVolume post \<and> after_loop post"
  using assms reuse_iters_attaches [OF assms(3)] after_loop_find [OF assms(6)]
  by (intro exI [of _ pre] exI [of _ lt] exI [of _ post] exI [of _ n]) simp

text \<open>
  C2. In a run with no snapshot name, whatever the implementation of the interface does:
  if all its methods return, the run ends; and the log of a run that ends is the calls of
  the precondition checks, then at most ten iterations of the reuse loop, then what follows
  the loop. An iteration is one \<open>findVolume\<close> call, followed by one \<open>attachVolume\<close>
  call, on the volume found, exactly when \<open>findVolume\<close> returned a volume and no error
  (see \<open>reuse_iters\<close>); so the loop makes ten \<open>attachVolume\<close> calls at most. What
  follows the loop has no \<open>findVolume\<close> call, and no \<open>attachVolume\<close> call but the one
  of the creation path, which comes third, after \<open>createVolume\<close> and
  \<open>waitUntilVolumeAvailable\<close> (see \<open>after_loop\<close>).
\<close>

theorem reuse_loop_bounded:
  assumes "snapshotName cfg = []"
  shows "(returns a \<longrightarrow> runAsgEbs (logged a) cfg (w, []) \<noteq> None)
       \<and> (\<forall>ex w' tr. runAsgEbs (logged a) cfg (w, []) = Some (ex, (w', tr)) \<longrightarrow>
            (\<exists>pre lt post n. tr = pre @ lt @ post \<and> list_all is_check pre
               \<and> reuse_iters lt = Some n \<and> n \<le> 10 \<and> length (filter is_attachVolume lt) \<le> n
               \<and> \<not> list_ex is_findVolume post \<and> after_loop post))"
proof (intro conjI allI impI)
  assume "returns a"
  then show "runAsgEbs (logged a) cfg (w, []) \<noteq> None"
    by (intro runAsgEbs_returns returns_logged)
next
  fix ex w' tr
  assume "runAsgEbs (logged a) cfg (w, []) = Some (ex, (w', tr))"
  then show "\<exists>pre lt post n. tr = pre @ lt @ post \<and> list_all is_check pre
               \<and> reuse_iters lt = Some n \<and> n \<le> 10 \<and> length (filter is_attachVolume lt) \<le> n
               \<and> \<not> list_ex is_findVolume post \<and> after_loop post"
  proof (cases rule: runAsgEbs_logged_cases)
    case checks
    then show ?thesis
      by (intro exI [of _ tr] exI [of _ "[]"] exI [of _ 0]) simp
  next
    case (acquire_fatal pre wa wb x)
    from acquire_logged_reuse [OF acquire_fatal(2) assms] obtain lt n where
      "tr = pre @ lt" "reuse_iters lt = Some n" "n \<le> 10" by blast
    with acquire_fatal(1) show ?thesis
      by (intro loop_then_rest [of pre tr lt n tr "[]"]) simp_all
  next
    case (reused pre wa wb la vid sid)
    from acquire_logged_reuse [OF reused(2) assms] obtain lt n where
      lt: "la = pre @ lt" "reuse_iters lt = Some n" "n \<le> 10" by blast
    from finish_after [OF reused(3)] obtain ft where
      "tr = la @ ft" "list_all (\<lambda>c. \<not> loop_call c) ft" by blast
    with reused(1) lt show ?thesis
      by (intro loop_then_rest [of pre la lt n tr ft] after_loop_plain)
  next
    case (create_fatal pre wa wb la sid wc x)
    from acquire_logged_reuse [OF create_fatal(2) assms] obtain lt n where
      lt: "la = pre @ lt" "reuse_iters lt = Some n" "n \<le> 10" by blast
    from create_fatal(3) obtain ct where "tr = la @ ct" "after_loop ct"
      by (cases rule: create_logged_cases) simp_all
    with create_fatal(1) lt show ?thesis
      by (intro loop_then_rest [of pre la lt n tr ct])
  next
    case (created pre wa wb la sid wc lc v cfs)
    from acquire_logged_reuse [OF created(2) assms] obtain lt n where
      lt: "la = pre @ lt" "reuse_iters lt = Some n" "n \<le> 10" by blast
    from created(3) obtain x where
      ct: "lc = la @ [CcreateVolume (createSize cfg) (createName cfg) (createVolumeType cfg)
                        (createTags cfg) sid (Some x, None),
                      CwaitUntilVolumeAvailable x None,
                      CattachVolume x (attachAs cfg) (deleteOnTermination cfg) None]"
      by (cases rule: create_logged_cases) simp_all
    from finish_after [OF created(4)] obtain ft where
      ft: "tr = lc @ ft" "list_all (\<lambda>c. \<not> loop_call c) ft" by blast
    let ?post = "[CcreateVolume (createSize cfg) (createName cfg) (createVolumeType cfg)
                    (createTags cfg) sid (Some x, None),
                  CwaitUntilVolumeAvailable x None,
                  CattachVolume x (attachAs cfg) (deleteOnTermination cfg) None] @ ft"
    from ct ft have "tr = la @ ?post" "after_loop ?post" by simp_all
    with created(1) lt show ?thesis
      by (intro loop_then_rest [of pre la lt n tr ?post])
  qed
qed

theorem reuse_loop_bounded_witness:
  "snapshotName cfg0 = []
   \<and> returns (stub (Some ''vol-1'') (Some (AwsError ''VolumeInUse'' [])) None)
   \<and> runAsgEbs (logged (stub (Some ''vol-1'') (Some (AwsError ''VolumeInUse'' [])) None)) cfg0 ((), [])
       \<noteq> None
   \<and> (\<exists>pre lt post n.
         calls (runAsgEbs (logged (stub (Some ''vol-1'') (Some (AwsError ''VolumeInUse'' [])) None))
                  cfg0 ((), [])) = pre @ lt @ post
         \<and> list_all is_check pre \<and> reuse_iters lt = Some n \<and> n \<le> 10
         \<and> length (filter is_attachVolume lt) \<le> n
         \<and> \<not> list_ex is_findVolume post \<and> after_loop post)"
proof -
  let ?s = "stub (Some ''vol-1'') (Some (AwsError ''VolumeInUse'' [])) None"
  have 1: "snapshotName cfg0 = []" by (simp add: cfg0_def)
  have 2: "returns ?s" by (rule stub_returns)
  from reuse_loop_bounded [OF 1, of ?s "()"] 2
  have ne: "runAsgEbs (logged ?s) cfg0 ((), []) \<noteq> None"
    and sh: "\<And>ex w' tr. runAsgEbs (logged ?s) cfg0 ((), []) = Some (ex, (w', tr)) \<Longrightarrow>
            (\<exists>pre lt post n. tr = pre @ lt @ post \<and> list_all is_check pre
               \<and> reuse_iters lt = Some n \<and> n \<le> 10 \<and> length (filter is_attachVolume lt) \<le> n
               \<and> \<not> list_ex is_findVolume post \<and> after_loop post)"
    by blast+
  from ne obtain ex w' tr where run: "runAsgEbs (logged ?s) cfg0 ((), []) = Some (ex, (w', tr))"
    by (cases "runAsgEbs (logged ?s) cfg0 ((), [])") auto
  from sh [OF run] run have
    "\<exists>pre lt post n. calls (runAsgEbs (logged ?s) cfg0 ((), [])) = pre @ lt @ post
         \<and> list_all is_check pre \<and> reuse_iters lt = Some n \<and> n \<le> 10
         \<and> length (filter is_attachVolume lt) \<le> n
         \<and> \<not> list_ex is_findVolume post \<and> after_loop post"
    by (simp add: calls_def)
  with 1 2 ne show ?thesis by blast
qed

end
